theory Spec2Isabelle
  imports Complex_Main "HOL-Library.Char_ord" "HOL-Library.List_Lexorder" "HOL-Library.Log_Nat"
begin

section \<open>Data model (src/src/types/core.ts, enums.ts, suggestions.ts)\<close>

text \<open>
  A JavaScript \<^verbatim>\<open>number\<close> is modelled as a rational. Sums, differences and the quotients
  of the calculators are taken exactly. Where the code turns a quotient into a whole
  percentage (\<^verbatim>\<open>Math.round\<close> of the fuel percentage and of the progress percentage) the
  rounding of each operation to a double is written out with \<open>fl\<close> below. NaN and the
  infinities appear only where the code divides by a value that can be zero; those places
  are written out below.

  A \<^verbatim>\<open>Date\<close> field holds either a Date object (milliseconds since the epoch) or, after a
  trip through \<^verbatim>\<open>JSON.stringify\<close>/\<^verbatim>\<open>JSON.parse\<close>, the ISO string of that instant.
\<close>

datatype jsdate = DateObj int | IsoString int

datatype SalaryFrequency = Monthly | Weekly | Biweekly

datatype BillFrequency = BillMonthly | BillWeekly | BillYearly

datatype ExpenseSource = Manual | Sms | Recurring

datatype ExpenseCategory =
    FOOD | TRANSPORT | ENTERTAINMENT | SHOPPING | UTILITIES | HEALTHCARE | EDUCATION
  | RENT | EMI | SUBSCRIPTION | INVESTMENT | SAVINGS | OTHERS

datatype FuelLevel = FULL | HIGH | MEDIUM | LOW | CRITICAL | EMPTY

record UserProfile =
  id :: string
  name :: string
  currency :: string
  timezone :: string
  onboardingCompleted :: bool
  createdAt :: jsdate
  updatedAt :: jsdate

record SalaryData =
  amount :: rat
  frequency :: SalaryFrequency
  lastUpdated :: jsdate
  nextSalaryDate :: jsdate
  recurringBillsDeducted :: rat

record Expense =
  id :: string
  amount :: rat
  category :: ExpenseCategory
  description :: string
  date :: jsdate
  source :: ExpenseSource
  tags :: "string list option"
  createdAt :: jsdate
  updatedAt :: jsdate

record ExpenseInput =
  amount :: rat
  category :: ExpenseCategory
  description :: string
  date :: "jsdate option"
  source :: "ExpenseSource option"
  tags :: "string list option"

record RecurringBill =
  id :: string
  name :: string
  amount :: rat
  frequency :: BillFrequency
  nextDueDate :: jsdate
  category :: ExpenseCategory
  autoDeduct :: bool
  isActive :: bool
  createdAt :: jsdate
  updatedAt :: jsdate

text \<open>
  appStore.ts imports zustand, \<^verbatim>\<open>./persistence\<close>, the types and \<^verbatim>\<open>AchievementService\<close>, nothing
  else. It uses the names \<^verbatim>\<open>NotificationService\<close>, \<^verbatim>\<open>useNotificationStore\<close>,
  \<^verbatim>\<open>createSalaryNotification\<close> and \<^verbatim>\<open>createBigSpendNotification\<close> without importing or declaring
  them: evaluating one of them throws a \<^verbatim>\<open>ReferenceError\<close>, here \<open>ReferenceError name\<close>. The
  wording of the error's message depends on the JavaScript engine; where the store keeps
  \<^verbatim>\<open>error.message\<close> the model keeps the error.
\<close>

datatype jserror = ReferenceError string

text \<open>\<open>percentage = None\<close> stands for NaN (the result of \<^verbatim>\<open>0 / 0\<close>).\<close>

record FuelStatus =
  level :: FuelLevel
  percentage :: "rat option"
  daysRemaining :: int
  color :: string
  warningMessage :: "string option"

record AppState =
  user :: "UserProfile option"
  salary :: "SalaryData option"
  expenses :: "Expense list"
  recurringBills :: "RecurringBill list"
  currentBalance :: rat
  daysRemaining :: int
  averageDailySpend :: rat
  fuelStatus :: FuelStatus
  isLoading :: bool
  error :: "jserror option"

section \<open>Metrics (src/src/stores/appStore.ts)\<close>

definition calculateBalance :: "AppState \<Rightarrow> rat" where
  "calculateBalance state =
     (case salary state of
        None \<Rightarrow> 0
      | Some sal \<Rightarrow>
          (let totalExpenses = foldl (\<lambda>sum expense. sum + Expense.amount expense) 0 (expenses state);
               recurringBillsTotal =
                 foldl (\<lambda>sum bill. sum + RecurringBill.amount bill) 0
                   (filter (\<lambda>bill. isActive bill \<and> autoDeduct bill) (recurringBills state))
           in max 0 (SalaryData.amount sal - totalExpenses - recurringBillsTotal)))"

text \<open>
  \<^verbatim>\<open>expense.date >= thirtyDaysAgo\<close>, the right operand a Date object. A Date object on the left
  compares by its time value; an ISO string on the left converts to the number NaN, and
  every comparison with NaN is false.
\<close>

fun date_ge :: "jsdate \<Rightarrow> int \<Rightarrow> bool" where
  "date_ge (DateObj t) t0 = (t0 \<le> t)"
| "date_ge (IsoString t) t0 = False"

text \<open>
  The clock (\<^verbatim>\<open>new Date()\<close>) is the parameter \<open>now\<close>, in milliseconds; one recomputation
  reads it several times, all modelled as the same instant.
\<close>

definition calculateAverageDailySpend :: "int \<Rightarrow> AppState \<Rightarrow> rat" where
  "calculateAverageDailySpend now state =
     (if length (expenses state) = 0 then 0
      else
        (let thirtyDaysAgo = now - (30 * 24 * 60 * 60 * 1000);
             recentExpenses =
               filter (\<lambda>expense. date_ge (Expense.date expense) thirtyDaysAgo
                                 \<and> Expense.source expense \<noteq> Recurring) (expenses state)
         in if length recentExpenses = 0 then 0
            else
              (let totalAmount = foldl (\<lambda>sum expense. sum + Expense.amount expense) 0 recentExpenses;
                   daysDiff = max 1 \<lceil>rat_of_int (now - thirtyDaysAgo) / (24 * 60 * 60 * 1000)\<rceil>
               in totalAmount / rat_of_int daysDiff)))"

definition calculateDaysRemaining :: "int \<Rightarrow> AppState \<Rightarrow> int" where
  "calculateDaysRemaining now state =
     (let balance = calculateBalance state;
          avgDailySpend = calculateAverageDailySpend now state
      in if avgDailySpend = 0 then (if balance > 0 then 999 else 0)
         else \<lfloor>balance / avgDailySpend\<rfloor>)"

definition getFuelLevel :: "rat \<Rightarrow> FuelLevel" where
  "getFuelLevel pct =
     (if pct > 75 then FULL
      else if pct > 50 then HIGH
      else if pct > 25 then MEDIUM
      else if pct > 10 then LOW
      else if pct > 5 then CRITICAL
      else EMPTY)"

fun getFuelColor :: "FuelLevel \<Rightarrow> string" where
  "getFuelColor FULL = ''#22c55e''"
| "getFuelColor HIGH = ''#22c55e''"
| "getFuelColor MEDIUM = ''#f59e0b''"
| "getFuelColor LOW = ''#ef4444''"
| "getFuelColor CRITICAL = ''#991b1b''"
| "getFuelColor EMPTY = ''#991b1b''"

text \<open>\<^verbatim>\<open>Math.round\<close> rounds to the nearest integer, a tie towards plus infinity.\<close>

definition js_round :: "rat \<Rightarrow> rat" where
  "js_round x = rat_of_int \<lfloor>x + 1 / 2\<rfloor>"

subsection \<open>Rounding to a double\<close>

text \<open>
  A double has a significand of 53 bits. \<open>rne\<close> is the nearest integer, a tie going to the
  even one; \<open>binade x\<close> is the \<open>k\<close> with \<open>2 ^ k \<le> x < 2 ^ (k + 1)\<close> for positive \<open>x\<close>;
  \<open>fl x\<close> is the double nearest to \<open>x\<close> (round to nearest, ties to even), the result of
  every arithmetic operation of JavaScript whose exact result is \<open>x\<close>. The range of the
  exponent is not bounded here: overflow and the subnormal numbers (magnitudes above
  \<open>1.7 * 10 ^ 308\<close> or below \<open>2.3 * 10 ^ -308\<close>) are outside the model.
\<close>

definition rne :: "rat \<Rightarrow> int" where
  "rne x =
     (let f = \<lfloor>x\<rfloor>; d = x - rat_of_int f
      in if d < 1 / 2 then f else if 1 / 2 < d then f + 1 else if even f then f else f + 1)"

definition binade :: "rat \<Rightarrow> int" where
  "binade x = (if 1 \<le> x then bitlen \<lfloor>x\<rfloor> - 1 else - bitlen (\<lceil>1 / x\<rceil> - 1))"

definition fl :: "rat \<Rightarrow> rat" where
  "fl x =
     (if x = 0 then 0
      else (let e = binade \<bar>x\<bar> - 52
            in sgn x * rat_of_int (rne (\<bar>x\<bar> / 2 powi e)) * 2 powi e))"

subsection \<open>Push notifications (src/src/services/notificationService.ts)\<close>

text \<open>
  \<^verbatim>\<open>sendImmediateNotification(title, body, data)\<close> hands a notification to the device; a
  delivery failure is caught and logged. The model collects the requests as
  \<open>Push title body data\<close>; the texts are the source's without their leading emoji.
\<close>

text \<open>
  A value inside a notification's data or inside a template string. A template string is
  the list of its pieces in order; how a number prints is left open. Characters outside
  ASCII (the rupee sign before an amount, an arrow) are left out of the texts, the arrow
  written \<^verbatim>\<open>->\<close>.
\<close>

datatype jsval =
    JStr string | JNum rat | JNaN | JCategory ExpenseCategory | JLevel FuelLevel
  | JStrs "string list"

fun jsnum :: "rat option \<Rightarrow> jsval" where
  "jsnum None = JNaN"
| "jsnum (Some x) = JNum x"

datatype PushNotification = Push string "jsval list" "(string \<times> jsval) list"

text \<open>
  \<^verbatim>\<open>generateFuelNotifications\<close> reads \<^verbatim>\<open>fuelStatus\<close> from the store as it stands when it is
  called (the read precedes the first \<^verbatim>\<open>await\<close>).
\<close>

definition generateFuelNotifications :: "AppState \<Rightarrow> PushNotification list" where
  "generateFuelNotifications st =
     (let fs = fuelStatus st
      in if level fs = EMPTY then
           [Push ''Fuel Tank Empty!'' [JStr ''Your balance is critically low. Time to refuel!'']
              [(''type'', JStr ''fuel_empty'')]]
         else if level fs = CRITICAL then
           [Push ''Critical Fuel Level!''
              [JStr ''Only a few days of fuel left. Plan your expenses carefully.'']
              [(''type'', JStr ''fuel_critical'')]]
         else if level fs = LOW then
           [Push ''Low Fuel Warning!''
              [JStr ''Your fuel is running low. Consider reducing expenses.'']
              [(''type'', JStr ''fuel_low'')]]
         else if level fs = FULL \<or> level fs = HIGH then
           [Push ''Fuel Tank Refueled!'' [JStr ''Great job! Your fuel tank is now full.'']
              [(''type'', JStr ''fuel_full'')]]
         else [])"

text \<open>
  The local \<^verbatim>\<open>percentage\<close> of \<^verbatim>\<open>calculateFuelStatus\<close>:
  \<^verbatim>\<open>Math.max(0, Math.min(100, (balance / state.salary.amount) * 100))\<close>, the quotient and the
  product each rounded to a double. With \<^verbatim>\<open>salary.amount = 0\<close> the quotient is \<^verbatim>\<open>Infinity\<close> for a
  positive balance (clamped to 100) and NaN for a zero balance.
\<close>

definition fuelPercentage :: "rat \<Rightarrow> rat \<Rightarrow> rat option" where
  "fuelPercentage balance amt =
     (if amt = 0 then (if balance > 0 then Some 100 else None)
      else Some (max 0 (min 100 (fl (fl (balance / amt) * 100)))))"

text \<open>
  \<^verbatim>\<open>calculateFuelStatus\<close> runs while the argument of \<^verbatim>\<open>set\<close> is being built, so the store still
  holds the previous status. When the level it computed differs from the stored one it
  evaluates \<^verbatim>\<open>NotificationService.generateFuelNotifications()\<close>; \<^verbatim>\<open>NotificationService\<close> is not
  bound in appStore.ts, so the function throws there and returns nothing. NaN fails every
  comparison of \<^verbatim>\<open>getFuelLevel\<close>.
\<close>

definition calculateFuelStatus :: "int \<Rightarrow> AppState \<Rightarrow> jserror + FuelStatus" where
  "calculateFuelStatus now state =
     (case salary state of
        None \<Rightarrow>
          Inr \<lparr>level = EMPTY, percentage = Some 0, FuelStatus.daysRemaining = 0,
               color = getFuelColor EMPTY,
               warningMessage = Some ''Please set your salary first''\<rparr>
      | Some sal \<Rightarrow>
          (let balance = calculateBalance state;
               pct = fuelPercentage balance (SalaryData.amount sal);
               lvl = (case pct of None \<Rightarrow> EMPTY | Some p \<Rightarrow> getFuelLevel p);
               days = calculateDaysRemaining now state;
               warning =
                 (if lvl = EMPTY then Some ''Emergency! Refuel immediately!''
                  else if lvl = CRITICAL then Some ''Critical fuel level! Take action soon.''
                  else if lvl = LOW then Some ''Low fuel warning! Plan your expenses carefully.''
                  else None);
               previousFuelStatus = fuelStatus state
           in if level previousFuelStatus \<noteq> lvl
              then Inl (ReferenceError ''NotificationService'')
              else Inr \<lparr>level = lvl, percentage = map_option js_round pct,
                        FuelStatus.daysRemaining = days, color = getFuelColor lvl,
                        warningMessage = warning\<rparr>))"

text \<open>The order of the fuel levels: empty < critical < low < medium < high < full.\<close>

fun fuelLevelIndex :: "FuelLevel \<Rightarrow> nat" where
  "fuelLevelIndex EMPTY = 0"
| "fuelLevelIndex CRITICAL = 1"
| "fuelLevelIndex LOW = 2"
| "fuelLevelIndex MEDIUM = 3"
| "fuelLevelIndex HIGH = 4"
| "fuelLevelIndex FULL = 5"

definition initialFuelStatus :: FuelStatus where
  "initialFuelStatus =
     \<lparr>level = EMPTY, percentage = Some 0, FuelStatus.daysRemaining = 0,
      color = getFuelColor EMPTY, warningMessage = None\<rparr>"

definition initialState :: AppState where
  "initialState =
     \<lparr>user = None, salary = None, expenses = [], recurringBills = [],
      currentBalance = 0, AppState.daysRemaining = 0, averageDailySpend = 0,
      fuelStatus = initialFuelStatus, isLoading = False, error = None\<rparr>"

definition mkSalary :: "rat \<Rightarrow> SalaryData" where
  "mkSalary a =
     \<lparr>SalaryData.amount = a, SalaryData.frequency = Monthly, lastUpdated = DateObj 0,
      nextSalaryDate = DateObj 0, recurringBillsDeducted = 0\<rparr>"

definition mkExpense :: "string \<Rightarrow> rat \<Rightarrow> ExpenseCategory \<Rightarrow> jsdate \<Rightarrow> Expense" where
  "mkExpense i a c d =
     \<lparr>Expense.id = i, Expense.amount = a, Expense.category = c, Expense.description = [],
      Expense.date = d, Expense.source = Manual, Expense.tags = None,
      Expense.createdAt = d, Expense.updatedAt = d\<rparr>"

subsection \<open>Notification inputs (src/src/types/enums.ts, src/unnamed/part_006)\<close>

datatype NotificationType =
    FUEL_LOW | FUEL_EMPTY | BIG_SPEND | ACHIEVEMENT | SALARY_RECEIVED | BILL_DUE
  | SUGGESTION | DAILY_REMINDER

datatype NotificationPriority = P_LOW | P_NORMAL | P_HIGH | P_URGENT

record NotificationInput =
  type :: NotificationType
  title :: string
  message :: "jsval list"
  priority :: "NotificationPriority option"
  actionData :: "(string \<times> jsval) list option"

definition createFuelLowNotification :: "int \<Rightarrow> rat option \<Rightarrow> NotificationInput" where
  "createFuelLowNotification daysLeft pct =
     \<lparr>type = FUEL_LOW, title = ''Low Fuel Warning!'',
      message = [JStr ''Only '', JNum (rat_of_int daysLeft), JStr '' days of fuel remaining ('',
                 jsnum pct, JStr ''%)''],
      priority = Some P_HIGH,
      actionData = Some [(''daysLeft'', JNum (rat_of_int daysLeft)), (''percentage'', jsnum pct)]\<rparr>"

definition createAchievementNotification :: "string \<Rightarrow> string \<Rightarrow> NotificationInput" where
  "createAchievementNotification ttl descr =
     \<lparr>type = ACHIEVEMENT, title = ''Achievement Unlocked!'',
      message = [JStr ttl, JStr '' - '', JStr descr],
      priority = Some P_NORMAL,
      actionData = Some [(''title'', JStr ttl), (''description'', JStr descr)]\<rparr>"

subsection \<open>Fuel notifications of the gamification engine (src/src/services/gamificationEngine.ts)\<close>

text \<open>
  \<^verbatim>\<open>createFuelLevelChangeNotification\<close>: \<^verbatim>\<open>levelOrder.indexOf\<close> is \<open>fuelLevelIndex\<close>; the local
  table \<^verbatim>\<open>notifications\<close> has an entry for empty, critical, low and medium and none for high
  and full, where the lookup is \<^verbatim>\<open>undefined\<close> and the function returns \<^verbatim>\<open>null\<close>.
\<close>

definition createFuelLevelChangeNotification ::
  "FuelLevel \<Rightarrow> FuelLevel \<Rightarrow> FuelStatus \<Rightarrow> NotificationInput option" where
  "createFuelLevelChangeNotification previousLevel currentLevel currentStatus =
     (let previousIndex = fuelLevelIndex previousLevel;
          currentIndex = fuelLevelIndex currentLevel
      in if currentIndex < previousIndex then
           (case (case currentLevel of
                    EMPTY \<Rightarrow>
                      Some (''Fuel Empty!'',
                            [JStr ''Your fuel tank is completely empty! Emergency action needed.''],
                            P_URGENT)
                  | CRITICAL \<Rightarrow>
                      Some (''Critical Fuel Level!'',
                            [JStr ''Only '',
                             JNum (rat_of_int (FuelStatus.daysRemaining currentStatus)),
                             JStr '' days of fuel remaining!''],
                            P_HIGH)
                  | LOW \<Rightarrow>
                      Some (''Low Fuel Warning!'',
                            [JStr ''Fuel level is low. '',
                             JNum (rat_of_int (FuelStatus.daysRemaining currentStatus)),
                             JStr '' days remaining.''],
                            P_HIGH)
                  | MEDIUM \<Rightarrow>
                      Some (''Fuel Level Decreased'',
                            [JStr ''Fuel dropped to '', jsnum (percentage currentStatus),
                             JStr ''%. Monitor your spending.''],
                            P_NORMAL)
                  | HIGH \<Rightarrow> None
                  | FULL \<Rightarrow> None) of
              None \<Rightarrow> None
            | Some (ttl, msg, prio) \<Rightarrow>
                Some \<lparr>type = FUEL_LOW, title = ttl, message = msg, priority = Some prio,
                      actionData =
                        Some [(''previousLevel'', JLevel previousLevel),
                              (''currentLevel'', JLevel currentLevel),
                              (''percentage'', jsnum (percentage currentStatus)),
                              (''daysRemaining'',
                               JNum (rat_of_int (FuelStatus.daysRemaining currentStatus)))]\<rparr>)
         else None)"

text \<open>The engine's own \<^verbatim>\<open>createBigSpendNotification\<close>, a private method.\<close>

definition createBigSpendNotification :: "Expense \<Rightarrow> int \<Rightarrow> int \<Rightarrow> NotificationInput" where
  "createBigSpendNotification expense previousDays currentDays =
     (let daysDifference = previousDays - currentDays
      in \<lparr>type = BIG_SPEND, title = ''Big Spend Alert!'',
          message = [JNum (Expense.amount expense), JStr '' spent on '',
                     JCategory (Expense.category expense), JStr ''. Days reduced from '',
                     JNum (rat_of_int previousDays), JStr '' -> '', JNum (rat_of_int currentDays)],
          priority = Some P_HIGH,
          actionData =
            Some [(''expenseId'', JStr (Expense.id expense)),
                  (''amount'', JNum (Expense.amount expense)),
                  (''category'', JCategory (Expense.category expense)),
                  (''daysDifference'', JNum (rat_of_int daysDifference)),
                  (''previousDays'', JNum (rat_of_int previousDays)),
                  (''currentDays'', JNum (rat_of_int currentDays))]\<rparr>)"

text \<open>\<^verbatim>\<open>fuelStatus.warningMessage || '...'\<close>: an absent or empty message gives the default.\<close>

definition createCriticalFuelNotification :: "FuelStatus \<Rightarrow> NotificationInput" where
  "createCriticalFuelNotification fs =
     \<lparr>type = FUEL_EMPTY,
      title = (if level fs = EMPTY then ''Emergency!'' else ''Critical Alert!''),
      message = [JStr (case warningMessage fs of
                         None \<Rightarrow> ''Your fuel is critically low!''
                       | Some w \<Rightarrow> if w = [] then ''Your fuel is critically low!'' else w)],
      priority = Some P_URGENT,
      actionData =
        Some [(''fuelLevel'', JLevel (level fs)), (''percentage'', jsnum (percentage fs)),
              (''daysRemaining'', JNum (rat_of_int (FuelStatus.daysRemaining fs)))]\<rparr>"

text \<open>
  \<^verbatim>\<open>generateFuelChangeNotifications(previousFuelStatus, currentFuelStatus, recentExpense)\<close>:
  the first argument may be \<^verbatim>\<open>null\<close>, the third may be absent. No module of the application
  calls it.
\<close>

definition generateFuelChangeNotifications ::
  "FuelStatus option \<Rightarrow> FuelStatus \<Rightarrow> Expense option \<Rightarrow> NotificationInput list" where
  "generateFuelChangeNotifications previousFuelStatus currentFuelStatus recentExpense =
     (case previousFuelStatus of
        None \<Rightarrow> []
      | Some previous \<Rightarrow>
          if level previous \<noteq> level currentFuelStatus then
            (case createFuelLevelChangeNotification (level previous) (level currentFuelStatus)
                    currentFuelStatus of
               None \<Rightarrow> []
             | Some notification \<Rightarrow> [notification])
          else [])
     @ (case recentExpense of
          None \<Rightarrow> []
        | Some expense \<Rightarrow>
            (case previousFuelStatus of
               None \<Rightarrow> []
             | Some previous \<Rightarrow>
                 (let daysDifference = FuelStatus.daysRemaining previous
                                       - FuelStatus.daysRemaining currentFuelStatus
                  in if daysDifference \<ge> 3
                     then [createBigSpendNotification expense (FuelStatus.daysRemaining previous)
                             (FuelStatus.daysRemaining currentFuelStatus)]
                     else [])))
     @ (if level currentFuelStatus = CRITICAL \<or> level currentFuelStatus = EMPTY
        then [createCriticalFuelNotification currentFuelStatus]
        else [])"

subsection \<open>The notification handler component (src/unnamed/part_015)\<close>

text \<open>
  \<^verbatim>\<open>NotificationHandler\<close> is mounted in the tab layout (src/unnamed/part_012) and reads the
  whole app store. Its
  second effect has the dependencies \<^verbatim>\<open>[fuelStatus.level, daysRemaining, fuelStatus.percentage]\<close>
  (\<open>fuelStatusDeps\<close>); React runs the effect's body (\<open>fuelStatusEffect\<close>) after the first render
  and after every later render in which a dependency differs from the render before.
  \<open>notificationHandlerRender previous st\<close> is what the effect hands to \<^verbatim>\<open>addNotification\<close> after
  a render with the store at \<open>st\<close>, \<open>previous\<close> the store at the render before (\<open>None\<close> at the
  first render).
\<close>

definition fuelStatusEffect :: "AppState \<Rightarrow> NotificationInput list" where
  "fuelStatusEffect st =
     (if level (fuelStatus st) = EMPTY then
        [createFuelLowNotification (AppState.daysRemaining st) (percentage (fuelStatus st))]
      else if level (fuelStatus st) = CRITICAL then
        [createFuelLowNotification (AppState.daysRemaining st) (percentage (fuelStatus st))]
      else if level (fuelStatus st) = LOW then
        [createFuelLowNotification (AppState.daysRemaining st) (percentage (fuelStatus st))]
      else [])"

definition fuelStatusDeps :: "AppState \<Rightarrow> FuelLevel \<times> int \<times> rat option" where
  "fuelStatusDeps st =
     (level (fuelStatus st), AppState.daysRemaining st, percentage (fuelStatus st))"

definition notificationHandlerRender :: "AppState option \<Rightarrow> AppState \<Rightarrow> NotificationInput list" where
  "notificationHandlerRender previous st =
     (case previous of
        None \<Rightarrow> fuelStatusEffect st
      | Some before \<Rightarrow>
          if fuelStatusDeps before \<noteq> fuelStatusDeps st then fuelStatusEffect st else [])"

subsection \<open>Adding an expense (src/src/stores/appStore.ts)\<close>

text \<open>
  \<^verbatim>\<open>generateId()\<close> (random digits and the clock) is the parameter \<open>newId\<close>. The body runs
  inside \<^verbatim>\<open>try\<close>, without an \<^verbatim>\<open>await\<close>. The expense is appended by its own \<^verbatim>\<open>set\<close>. The second
  \<^verbatim>\<open>set\<close> stores the four metrics only if \<^verbatim>\<open>calculateFuelStatus\<close> returns. After it the code
  evaluates \<^verbatim>\<open>createBigSpendNotification\<close> (for a big spend) or else \<^verbatim>\<open>NotificationService\<close>,
  neither of them bound in appStore.ts: every call ends in the \<^verbatim>\<open>catch\<close> branch, which stores
  the error, and the achievement checks after it are never reached. \<^verbatim>\<open>0.1\<close> is the double
  nearest to one tenth.
\<close>

definition addExpense :: "ExpenseInput \<Rightarrow> string \<Rightarrow> int \<Rightarrow> AppState \<Rightarrow> AppState" where
  "addExpense expenseInput newId now state0 =
     (let st1 = state0\<lparr>isLoading := True, error := None\<rparr>;
          expense =
            \<lparr>Expense.id = newId,
             Expense.amount = ExpenseInput.amount expenseInput,
             Expense.category = ExpenseInput.category expenseInput,
             Expense.description = ExpenseInput.description expenseInput,
             Expense.date = (case ExpenseInput.date expenseInput of Some d \<Rightarrow> d | None \<Rightarrow> DateObj now),
             Expense.source = (case ExpenseInput.source expenseInput of Some src \<Rightarrow> src | None \<Rightarrow> Manual),
             Expense.tags = ExpenseInput.tags expenseInput,
             Expense.createdAt = DateObj now,
             Expense.updatedAt = DateObj now\<rparr>;
          st2 = st1\<lparr>expenses := expenses st1 @ [expense]\<rparr>;
          balanceBefore = currentBalance st2
      in case calculateFuelStatus now st2 of
           Inl e \<Rightarrow> st2\<lparr>error := Some e, isLoading := False\<rparr>
         | Inr recomputed \<Rightarrow>
             (let st3 = st2\<lparr>currentBalance := calculateBalance st2,
                            AppState.daysRemaining := calculateDaysRemaining now st2,
                            averageDailySpend := calculateAverageDailySpend now st2,
                            fuelStatus := recomputed\<rparr>
              in if Expense.amount expense > fl (balanceBefore * fl (1 / 10))
                 then st3\<lparr>error := Some (ReferenceError ''createBigSpendNotification''),
                          isLoading := False\<rparr>
                 else st3\<lparr>error := Some (ReferenceError ''NotificationService''),
                          isLoading := False\<rparr>))"

subsection \<open>Concrete ledger states\<close>

text \<open>
  Salary 15000 and three manual expenses: 2000 dated \<open>today\<close>, 1500 a day earlier, 1000 two
  days earlier.
\<close>

definition scenarioState :: "int \<Rightarrow> AppState" where
  "scenarioState today =
     initialState\<lparr>salary := Some (mkSalary 15000),
        expenses := [mkExpense ''e1'' 2000 FOOD (DateObj today),
                     mkExpense ''e2'' 1500 TRANSPORT (DateObj (today - 86400000)),
                     mkExpense ''e3'' 1000 ENTERTAINMENT (DateObj (today - 2 * 86400000))]\<rparr>"

text \<open>An instant to run the scenario at (14 November 2023, 22:13:20 UTC).\<close>

definition scenarioNow :: int where
  "scenarioNow = 1700000000000"

text \<open>
  The scenario's ledger in a store whose metrics already stand at the values the
  calculators give for it.
\<close>

definition scenarioStored :: AppState where
  "scenarioStored =
     (scenarioState scenarioNow)\<lparr>currentBalance := 10500,
        AppState.daysRemaining := 70,
        averageDailySpend := 150,
        fuelStatus :=
          \<lparr>level = HIGH, percentage = Some 70, FuelStatus.daysRemaining = 70,
           color = getFuelColor HIGH, warningMessage = None\<rparr>\<rparr>"

text \<open>
  A store with salary 1000 and no expense, its metrics, error and loading flag as
  \<^verbatim>\<open>setSalary\<close> leaves them on a fresh store: the metrics were computed while the salary was
  still \<^verbatim>\<open>null\<close>, and the call ended in its \<^verbatim>\<open>catch\<close> branch at the unbound
  \<^verbatim>\<open>createSalaryNotification\<close>.
\<close>

definition salariedState :: AppState where
  "salariedState =
     initialState\<lparr>salary := Some (mkSalary 1000),
        fuelStatus :=
          \<lparr>level = EMPTY, percentage = Some 0, FuelStatus.daysRemaining = 0,
           color = getFuelColor EMPTY,
           warningMessage = Some ''Please set your salary first''\<rparr>,
        error := Some (ReferenceError ''createSalaryNotification'')\<rparr>"

definition refundInput :: ExpenseInput where
  "refundInput =
     \<lparr>ExpenseInput.amount = - 50, ExpenseInput.category = FOOD,
      ExpenseInput.description = ''refund'', ExpenseInput.date = None,
      ExpenseInput.source = None, ExpenseInput.tags = None\<rparr>"

definition rentInput :: ExpenseInput where
  "rentInput =
     \<lparr>ExpenseInput.amount = 960, ExpenseInput.category = RENT,
      ExpenseInput.description = ''rent'', ExpenseInput.date = None,
      ExpenseInput.source = None, ExpenseInput.tags = None\<rparr>"

text \<open>Fuel statuses as \<^verbatim>\<open>calculateFuelStatus\<close> builds them, for the levels high to empty.\<close>

definition highStatus :: FuelStatus where
  "highStatus =
     \<lparr>level = HIGH, percentage = Some 70, FuelStatus.daysRemaining = 70,
      color = getFuelColor HIGH, warningMessage = None\<rparr>"

definition mediumStatus :: FuelStatus where
  "mediumStatus =
     \<lparr>level = MEDIUM, percentage = Some 45, FuelStatus.daysRemaining = 45,
      color = getFuelColor MEDIUM, warningMessage = None\<rparr>"

definition criticalStatus :: FuelStatus where
  "criticalStatus =
     \<lparr>level = CRITICAL, percentage = Some 8, FuelStatus.daysRemaining = 4,
      color = getFuelColor CRITICAL,
      warningMessage = Some ''Critical fuel level! Take action soon.''\<rparr>"

definition emptyStatus :: FuelStatus where
  "emptyStatus =
     \<lparr>level = EMPTY, percentage = Some 3, FuelStatus.daysRemaining = 1,
      color = getFuelColor EMPTY, warningMessage = Some ''Emergency! Refuel immediately!''\<rparr>"

section \<open>Notification store (src/unnamed/part_006)\<close>

record AppNotification =
  id :: string
  type :: NotificationType
  title :: string
  message :: "jsval list"
  priority :: NotificationPriority
  isRead :: bool
  createdAt :: jsdate
  actionData :: "(string \<times> jsval) list option"

record QuietHours =
  enabled :: bool
  startTime :: string
  endTime :: string

record NotificationSettings =
  fuelAlerts :: bool
  bigSpendAlerts :: bool
  achievementAlerts :: bool
  billReminders :: bool
  dailyReminders :: bool
  quietHours :: QuietHours
  soundEnabled :: bool
  vibrationEnabled :: bool

record NotificationState =
  notifications :: "AppNotification list"
  settings :: NotificationSettings
  unreadCount :: int
  isLoading :: bool
  error :: "string option"

definition defaultSettings :: NotificationSettings where
  "defaultSettings =
     \<lparr>fuelAlerts = True, bigSpendAlerts = True, achievementAlerts = True,
      billReminders = True, dailyReminders = True,
      quietHours = \<lparr>enabled = False, startTime = ''22:00'', endTime = ''08:00''\<rparr>,
      soundEnabled = True, vibrationEnabled = True\<rparr>"

definition initialNotificationState :: NotificationState where
  "initialNotificationState =
     \<lparr>notifications = [], settings = defaultSettings, unreadCount = 0,
      NotificationState.isLoading = False, NotificationState.error = None\<rparr>"

fun notificationTypeName :: "NotificationType \<Rightarrow> string" where
  "notificationTypeName FUEL_LOW = ''fuel_low''"
| "notificationTypeName FUEL_EMPTY = ''fuel_empty''"
| "notificationTypeName BIG_SPEND = ''big_spend''"
| "notificationTypeName ACHIEVEMENT = ''achievement''"
| "notificationTypeName SALARY_RECEIVED = ''salary_received''"
| "notificationTypeName BILL_DUE = ''bill_due''"
| "notificationTypeName SUGGESTION = ''suggestion''"
| "notificationTypeName DAILY_REMINDER = ''daily_reminder''"

text \<open>The two local tests of \<^verbatim>\<open>addNotification\<close>.\<close>

fun isTypeEnabled :: "NotificationSettings \<Rightarrow> NotificationType \<Rightarrow> bool" where
  "isTypeEnabled cfg FUEL_LOW = fuelAlerts cfg"
| "isTypeEnabled cfg FUEL_EMPTY = fuelAlerts cfg"
| "isTypeEnabled cfg BIG_SPEND = bigSpendAlerts cfg"
| "isTypeEnabled cfg ACHIEVEMENT = achievementAlerts cfg"
| "isTypeEnabled cfg BILL_DUE = billReminders cfg"
| "isTypeEnabled cfg DAILY_REMINDER = dailyReminders cfg"
| "isTypeEnabled cfg SALARY_RECEIVED = True"
| "isTypeEnabled cfg SUGGESTION = True"

text \<open>
  Times of day are strings (\<^verbatim>\<open>"HH:MM"\<close>) and JavaScript compares strings by code unit,
  lexicographically: the order of \<open>string\<close> here.
\<close>

definition isInQuietHours :: "string \<Rightarrow> string \<Rightarrow> string \<Rightarrow> bool" where
  "isInQuietHours currentTime start end' =
     (if start < end' then currentTime \<ge> start \<and> currentTime \<le> end'
      else currentTime \<ge> start \<or> currentTime \<le> end')"

text \<open>
  \<open>newId\<close> is the result of \<^verbatim>\<open>generateId()\<close>, \<open>now\<close> the clock and \<open>currentTime\<close> the first
  five characters of its local time string. The second component is the push notification
  handed to the notification service; in its data a later entry overrides an earlier one
  of the same key.
\<close>

definition addNotification ::
  "NotificationInput \<Rightarrow> string \<Rightarrow> int \<Rightarrow> string \<Rightarrow> NotificationState
     \<Rightarrow> NotificationState \<times> PushNotification list" where
  "addNotification notificationInput newId now currentTime state0 =
     (let state = state0\<lparr>NotificationState.isLoading := True, NotificationState.error := None\<rparr>
      in if \<not> isTypeEnabled (settings state) (NotificationInput.type notificationInput)
         then (state\<lparr>NotificationState.isLoading := False\<rparr>, [])
         else if enabled (quietHours (settings state))
                 \<and> isInQuietHours currentTime (startTime (quietHours (settings state)))
                       (endTime (quietHours (settings state)))
                 \<and> NotificationInput.priority notificationInput \<noteq> Some P_URGENT
         then (state\<lparr>NotificationState.isLoading := False\<rparr>, [])
         else
           (let notification =
                  \<lparr>AppNotification.id = newId,
                   AppNotification.type = NotificationInput.type notificationInput,
                   AppNotification.title = NotificationInput.title notificationInput,
                   AppNotification.message = NotificationInput.message notificationInput,
                   AppNotification.priority =
                     (case NotificationInput.priority notificationInput of
                        Some p \<Rightarrow> p | None \<Rightarrow> P_NORMAL),
                   isRead = False,
                   AppNotification.createdAt = DateObj now,
                   AppNotification.actionData = NotificationInput.actionData notificationInput\<rparr>
            in (state\<lparr>notifications := notification # notifications state,
                       unreadCount := unreadCount state + 1,
                       NotificationState.isLoading := False\<rparr>,
                [Push (AppNotification.title notification) (AppNotification.message notification)
                   ((''type'', JStr (notificationTypeName (AppNotification.type notification)))
                    # (case AppNotification.actionData notification of
                         None \<Rightarrow> [] | Some kvs \<Rightarrow> kvs))])))"

text \<open>
  In \<^verbatim>\<open>markAsRead\<close> the updater of an unknown or already read id calls
  \<^verbatim>\<open>set({ isLoading: false })\<close> and then returns the state it was given, which the store
  merges back: the notifications and the count stay, and so does \<^verbatim>\<open>isLoading: true\<close>.
\<close>

definition markAsRead :: "string \<Rightarrow> NotificationState \<Rightarrow> NotificationState" where
  "markAsRead i state0 =
     (let state = state0\<lparr>NotificationState.isLoading := True, NotificationState.error := None\<rparr>
      in case find (\<lambda>n. AppNotification.id n = i) (notifications state) of
           None \<Rightarrow> state
         | Some notification \<Rightarrow>
             if isRead notification then state
             else state\<lparr>notifications :=
                          map (\<lambda>n. if AppNotification.id n = i then n\<lparr>isRead := True\<rparr> else n)
                            (notifications state),
                        unreadCount := max 0 (unreadCount state - 1),
                        NotificationState.isLoading := False\<rparr>)"

definition markAllAsRead :: "NotificationState \<Rightarrow> NotificationState" where
  "markAllAsRead state0 =
     (let state = state0\<lparr>NotificationState.isLoading := True, NotificationState.error := None\<rparr>
      in state\<lparr>notifications := map (\<lambda>n. n\<lparr>isRead := True\<rparr>) (notifications state),
                unreadCount := 0,
                NotificationState.isLoading := False\<rparr>)"

definition deleteNotification :: "string \<Rightarrow> NotificationState \<Rightarrow> NotificationState" where
  "deleteNotification i state0 =
     (let state = state0\<lparr>NotificationState.isLoading := True, NotificationState.error := None\<rparr>;
          wasUnread =
            (case find (\<lambda>n. AppNotification.id n = i) (notifications state) of
               None \<Rightarrow> False
             | Some notification \<Rightarrow> \<not> isRead notification)
      in state\<lparr>notifications := filter (\<lambda>n. AppNotification.id n \<noteq> i) (notifications state),
                unreadCount := (if wasUnread then max 0 (unreadCount state - 1)
                                else unreadCount state),
                NotificationState.isLoading := False\<rparr>)"

text \<open>\<^verbatim>\<open>clearAllNotifications\<close> also cancels the scheduled device notifications.\<close>

definition clearAllNotifications :: "NotificationState \<Rightarrow> NotificationState" where
  "clearAllNotifications state0 =
     (let state = state0\<lparr>NotificationState.isLoading := True, NotificationState.error := None\<rparr>
      in state\<lparr>notifications := [], unreadCount := 0, NotificationState.isLoading := False\<rparr>)"

definition getUnreadNotifications :: "NotificationState \<Rightarrow> AppNotification list" where
  "getUnreadNotifications state = filter (\<lambda>n. \<not> isRead n) (notifications state)"

text \<open>Sequences of store operations, each \<open>OpAdd\<close> with the id, clock and time it drew.\<close>

datatype NotificationOp =
    OpAdd NotificationInput string int string
  | OpMarkAsRead string
  | OpMarkAllAsRead
  | OpDelete string
  | OpClearAll

fun applyOp :: "NotificationOp \<Rightarrow> NotificationState \<Rightarrow> NotificationState" where
  "applyOp (OpAdd inp newId now currentTime) st = fst (addNotification inp newId now currentTime st)"
| "applyOp (OpMarkAsRead i) st = markAsRead i st"
| "applyOp OpMarkAllAsRead st = markAllAsRead st"
| "applyOp (OpDelete i) st = deleteNotification i st"
| "applyOp OpClearAll st = clearAllNotifications st"

fun runOps :: "NotificationOp list \<Rightarrow> NotificationState \<Rightarrow> NotificationState" where
  "runOps [] st = st"
| "runOps (x # xs) st = runOps xs (applyOp x st)"

text \<open>
  \<^verbatim>\<open>generateId()\<close> is taken to be process-unique: an id drawn for a new notification is not
  the id of a notification in the store at that moment.
\<close>

fun idsFresh :: "NotificationOp list \<Rightarrow> NotificationState \<Rightarrow> bool" where
  "idsFresh [] st = True"
| "idsFresh (OpAdd inp newId now currentTime # xs) st =
     (newId \<notin> set (map AppNotification.id (notifications st))
      \<and> idsFresh xs (applyOp (OpAdd inp newId now currentTime) st))"
| "idsFresh (x # xs) st = idsFresh xs (applyOp x st)"

subsection \<open>Concrete notification states\<close>

definition quietSettings :: NotificationSettings where
  "quietSettings =
     defaultSettings\<lparr>fuelAlerts := False,
       quietHours := \<lparr>enabled = True, startTime = ''22:00'', endTime = ''08:00''\<rparr>\<rparr>"

definition quietState :: NotificationState where
  "quietState = initialNotificationState\<lparr>settings := quietSettings\<rparr>"

definition mkInput :: "NotificationType \<Rightarrow> string \<Rightarrow> NotificationPriority \<Rightarrow> NotificationInput" where
  "mkInput ty ttl prio =
     \<lparr>NotificationInput.type = ty, NotificationInput.title = ttl,
      NotificationInput.message = [], NotificationInput.priority = Some prio,
      NotificationInput.actionData = None\<rparr>"

definition urgentFuelInput :: NotificationInput where
  "urgentFuelInput = mkInput FUEL_EMPTY ''Fuel Tank Empty!'' P_URGENT"

definition urgentSalaryInput :: NotificationInput where
  "urgentSalaryInput = mkInput SALARY_RECEIVED ''Salary Received!'' P_URGENT"

definition lowFuelInput :: NotificationInput where
  "lowFuelInput = mkInput FUEL_LOW ''Low Fuel'' P_HIGH"

definition exampleOps :: "NotificationOp list" where
  "exampleOps =
     [OpAdd lowFuelInput ''n1'' 0 ''12:00'',
      OpAdd urgentSalaryInput ''n2'' 1 ''12:01'',
      OpMarkAsRead ''n1'',
      OpAdd lowFuelInput ''n3'' 2 ''12:02'',
      OpDelete ''n2'',
      OpMarkAsRead ''n1'']"

text \<open>The invariant of the notification store: ids are distinct and the count is exact.\<close>

definition countInv :: "NotificationState \<Rightarrow> bool" where
  "countInv st \<longleftrightarrow>
     distinct (map AppNotification.id (notifications st))
     \<and> unreadCount st = int (length (filter (\<lambda>n. \<not> isRead n) (notifications st)))"

section \<open>Suggestions (src/src/types/suggestions.ts, src/unnamed/part_005, src/src/services/aiService.ts)\<close>

datatype SuggestionType =
    ST_EMERGENCY | ST_INVESTMENT | ST_SAVINGS | ST_BUDGET_ADJUSTMENT
  | ST_CATEGORY_OPTIMIZATION | ST_RECURRING_BILL | ST_FUEL_WARNING

datatype SuggestionAction =
    SAVE | INVEST | REDUCE_SPENDING | REVIEW_EXPENSES | ADD_INCOME | TRANSFER_MONEY
  | SET_REMINDER | ADJUST_BUDGET

record Impact =
  daysGained :: "rat option"
  moneySaved :: "rat option"
  confidenceScore :: rat

record SuggestionInput =
  type :: SuggestionType
  title :: string
  description :: "jsval list"
  action :: SuggestionAction
  priority :: "NotificationPriority option"
  actionAmount :: "rat option"
  category :: "string option"
  impact :: Impact
  expiresAt :: "jsdate option"
  actionData :: "(string \<times> jsval) list option"

record Suggestion =
  id :: string
  type :: SuggestionType
  title :: string
  description :: "jsval list"
  action :: SuggestionAction
  priority :: NotificationPriority
  actionAmount :: "rat option"
  category :: "string option"
  impact :: Impact
  isApplied :: bool
  isDismissed :: bool
  createdAt :: jsdate
  expiresAt :: "jsdate option"
  actionData :: "(string \<times> jsval) list option"

record FinancialContext =
  balance :: rat
  daysLeft :: rat
  salary :: rat
  avgDailySpend :: rat
  topCategories :: "string list"
  totalExpenses :: rat
  recurringBillsAmount :: rat

record CategorySpending =
  category :: string
  amount :: rat
  percentage :: rat
  count :: rat

record MonthlySpending =
  month :: string
  amount :: rat
  year :: rat

record SpendingAnalytics =
  averageDailySpend :: rat
  categoryBreakdown :: "CategorySpending list"
  monthlyTrend :: "MonthlySpending list"
  projectedBurnRate :: rat
  savingsStreak :: rat
  budgetAdherence :: rat
  topCategories :: "string list"

record SuggestionsState =
  suggestions :: "Suggestion list"
  suggestionsHistory :: "Suggestion list"
  lastGenerated :: "jsdate option"
  isGenerating :: bool
  isLoading :: bool
  error :: "string option"

definition initialSuggestionsState :: SuggestionsState where
  "initialSuggestionsState =
     \<lparr>suggestions = [], suggestionsHistory = [], lastGenerated = None, isGenerating = False,
      SuggestionsState.isLoading = False, SuggestionsState.error = None\<rparr>"

definition getCategoryOptimizationTips :: "string \<Rightarrow> string list" where
  "getCategoryOptimizationTips cat =
     (if cat = ''Food'' then
        [''Cook at home more often'', ''Plan meals in advance'', ''Buy groceries in bulk'',
         ''Avoid food delivery apps'']
      else if cat = ''Transport'' then
        [''Use public transport'', ''Carpool when possible'',
         ''Walk or bike for short distances'', ''Maintain your vehicle regularly'']
      else if cat = ''Entertainment'' then
        [''Look for free events'', ''Share subscriptions with family'',
         ''Choose home entertainment'', ''Use discount apps'']
      else if cat = ''Shopping'' then
        [''Make a shopping list'', ''Wait 24 hours before big purchases'',
         ''Compare prices online'', ''Buy only what you need'']
      else [''Review your expenses in this category''])"

text \<open>
  The rules of \<^verbatim>\<open>generateRuleBasedSuggestions\<close>, one definition per \<^verbatim>\<open>if\<close> statement, in
  the order of the source; each yields the suggestions it pushes.
\<close>

definition emergencyRule :: "FinancialContext \<Rightarrow> SuggestionInput list" where
  "emergencyRule ctx =
     (if balance ctx < FinancialContext.salary ctx * (1 / 10) then
        [\<lparr>SuggestionInput.type = ST_EMERGENCY,
          SuggestionInput.title = ''Emergency Mode'',
          SuggestionInput.description =
            [JStr ''Your fuel is critically low! Consider reducing non-essential expenses immediately.''],
          SuggestionInput.action = REDUCE_SPENDING,
          SuggestionInput.priority = Some P_URGENT,
          SuggestionInput.actionAmount = None,
          SuggestionInput.category = None,
          SuggestionInput.impact =
            \<lparr>daysGained = Some 5, moneySaved = Some (avgDailySpend ctx * 5),
             confidenceScore = 9 / 10\<rparr>,
          SuggestionInput.expiresAt = None,
          SuggestionInput.actionData =
            Some [(''recommendedReduction'', JNum (avgDailySpend ctx * (1 / 2)))]\<rparr>]
      else [])"

definition investmentRule :: "FinancialContext \<Rightarrow> SuggestionInput list" where
  "investmentRule ctx =
     (if balance ctx > FinancialContext.salary ctx * (1 / 2) \<and> daysLeft ctx > 20 then
        (let investAmount = rat_of_int \<lfloor>balance ctx * (3 / 10)\<rfloor>
         in [\<lparr>SuggestionInput.type = ST_INVESTMENT,
              SuggestionInput.title = ''Investment Opportunity'',
              SuggestionInput.description =
                [JStr ''You have surplus funds. Consider investing '', JNum investAmount,
                 JStr '' for future growth.''],
              SuggestionInput.action = INVEST,
              SuggestionInput.priority = Some P_NORMAL,
              SuggestionInput.actionAmount = Some investAmount,
              SuggestionInput.category = None,
              SuggestionInput.impact =
                \<lparr>daysGained = None, moneySaved = Some (investAmount * (8 / 100)),
                 confidenceScore = 7 / 10\<rparr>,
              SuggestionInput.expiresAt = None,
              SuggestionInput.actionData =
                Some [(''investmentOptions'', JStrs [''SIP'', ''Fixed Deposit'', ''Index Funds''])]\<rparr>])
      else [])"

definition savingsRule :: "FinancialContext \<Rightarrow> SuggestionInput list" where
  "savingsRule ctx =
     (if daysLeft ctx > 25 then
        (let saveAmount = rat_of_int \<lfloor>balance ctx * (2 / 10)\<rfloor>
         in [\<lparr>SuggestionInput.type = ST_SAVINGS,
              SuggestionInput.title = ''Great Job!'',
              SuggestionInput.description =
                [JStr ''You are ahead of budget! Consider saving '', JNum saveAmount,
                 JStr '' for emergency fund.''],
              SuggestionInput.action = SAVE,
              SuggestionInput.priority = Some P_LOW,
              SuggestionInput.actionAmount = Some saveAmount,
              SuggestionInput.category = None,
              SuggestionInput.impact =
                \<lparr>daysGained = None, moneySaved = Some saveAmount, confidenceScore = 8 / 10\<rparr>,
              SuggestionInput.expiresAt = None,
              SuggestionInput.actionData =
                Some [(''savingsGoal'', JNum (FinancialContext.salary ctx))]\<rparr>])
      else [])"

definition budgetRule :: "FinancialContext \<Rightarrow> SuggestionInput list" where
  "budgetRule ctx =
     (if daysLeft ctx < 10 \<and> daysLeft ctx > 0 then
        [\<lparr>SuggestionInput.type = ST_BUDGET_ADJUSTMENT,
          SuggestionInput.title = ''Budget Alert'',
          SuggestionInput.description =
            [JStr ''Your current spending rate will exhaust funds soon. Adjust your daily budget.''],
          SuggestionInput.action = ADJUST_BUDGET,
          SuggestionInput.priority = Some P_HIGH,
          SuggestionInput.actionAmount = None,
          SuggestionInput.category = None,
          SuggestionInput.impact =
            \<lparr>daysGained = Some 10, moneySaved = Some (avgDailySpend ctx * 10),
             confidenceScore = 85 / 100\<rparr>,
          SuggestionInput.expiresAt = None,
          SuggestionInput.actionData =
            Some [(''recommendedDailyBudget'', JNum (balance ctx / 20)),
                  (''currentDailySpend'', JNum (avgDailySpend ctx))]\<rparr>]
      else [])"

definition categoryRule :: "FinancialContext \<Rightarrow> SuggestionInput list" where
  "categoryRule ctx =
     (case FinancialContext.topCategories ctx of
        [] \<Rightarrow> []
      | topCategory # _ \<Rightarrow>
        [\<lparr>SuggestionInput.type = ST_CATEGORY_OPTIMIZATION,
          SuggestionInput.title = ''Category Focus'',
          SuggestionInput.description =
            [JStr topCategory,
             JStr '' is your top spending category. Look for ways to optimize here.''],
          SuggestionInput.action = REVIEW_EXPENSES,
          SuggestionInput.priority = Some P_NORMAL,
          SuggestionInput.actionAmount = None,
          SuggestionInput.category = Some topCategory,
          SuggestionInput.impact =
            \<lparr>daysGained = Some 3, moneySaved = Some (avgDailySpend ctx * (3 / 10)),
             confidenceScore = 6 / 10\<rparr>,
          SuggestionInput.expiresAt = None,
          SuggestionInput.actionData =
            Some [(''category'', JStr topCategory),
                  (''tips'', JStrs (getCategoryOptimizationTips topCategory))]\<rparr>])"

definition billRule :: "FinancialContext \<Rightarrow> SuggestionInput list" where
  "billRule ctx =
     (if recurringBillsAmount ctx > FinancialContext.salary ctx * (4 / 10) then
        [\<lparr>SuggestionInput.type = ST_RECURRING_BILL,
          SuggestionInput.title = ''Bill Review'',
          SuggestionInput.description =
            [JStr ''Your recurring bills are high. Review subscriptions and cancel unused ones.''],
          SuggestionInput.action = REVIEW_EXPENSES,
          SuggestionInput.priority = Some P_NORMAL,
          SuggestionInput.actionAmount = None,
          SuggestionInput.category = None,
          SuggestionInput.impact =
            \<lparr>daysGained = Some 5, moneySaved = Some (recurringBillsAmount ctx * (2 / 10)),
             confidenceScore = 75 / 100\<rparr>,
          SuggestionInput.expiresAt = None,
          SuggestionInput.actionData =
            Some [(''totalBills'', JNum (recurringBillsAmount ctx)),
                  (''recommendation'', JStr ''Cancel unused subscriptions'')]\<rparr>]
      else [])"

definition generateRuleBasedSuggestions :: "FinancialContext \<Rightarrow> SuggestionInput list" where
  "generateRuleBasedSuggestions ctx =
     emergencyRule ctx @ investmentRule ctx @ savingsRule ctx @ budgetRule ctx
     @ categoryRule ctx @ billRule ctx"

subsection \<open>The mock AI service (src/src/services/aiService.ts)\<close>

definition generateCategoryTips :: "string \<Rightarrow> string list" where
  "generateCategoryTips cat =
     (if cat = ''Food'' then
        [''AI suggests meal planning to reduce food costs by 15%'',
         ''Consider bulk buying for non-perishable items'',
         ''Use cashback apps for grocery shopping'']
      else if cat = ''Transport'' then
        [''AI recommends public transport for 60% of trips'',
         ''Carpooling could save 30% on transport costs'',
         ''Maintain vehicle to avoid unexpected repair costs'']
      else if cat = ''Entertainment'' then
        [''AI suggests limiting entertainment spending to 5% of income'',
         ''Explore free local events and activities'',
         ''Share streaming subscriptions with family'']
      else if cat = ''Shopping'' then
        [''AI recommends creating a 24-hour waiting period for purchases'',
         ''Compare prices across platforms before buying'',
         ''Look for seasonal sales and discounts'']
      else
        [''AI recommends tracking all expenses in this category'',
         ''Set monthly limits for this spending category'',
         ''Review subscriptions and cancel unused services''])"

definition aiFuelWarning :: "FinancialContext \<Rightarrow> SuggestionInput list" where
  "aiFuelWarning ctx =
     (if daysLeft ctx < 10 then
        [\<lparr>SuggestionInput.type = ST_FUEL_WARNING,
          SuggestionInput.title = ''AI-Powered Fuel Warning'',
          SuggestionInput.description =
            [JStr ''AI analysis shows your spending pattern will exhaust funds soon. Consider these adjustments.''],
          SuggestionInput.action = REDUCE_SPENDING,
          SuggestionInput.priority = Some P_HIGH,
          SuggestionInput.actionAmount = None,
          SuggestionInput.category = None,
          SuggestionInput.impact =
            \<lparr>daysGained = None, moneySaved = None, confidenceScore = 85 / 100\<rparr>,
          SuggestionInput.expiresAt = None,
          SuggestionInput.actionData =
            Some [(''aiRecommendations'',
                   JStrs [''Reduce discretionary spending by 25%'',
                          ''Postpone non-essential purchases'',
                          ''Look for cheaper alternatives''])]\<rparr>]
      else [])"

definition aiCategoryOptimization :: "SpendingAnalytics option \<Rightarrow> SuggestionInput list" where
  "aiCategoryOptimization analytics =
     (case analytics of
        None \<Rightarrow> []
      | Some an \<Rightarrow>
          (case categoryBreakdown an of
             [] \<Rightarrow> []
           | highestCategory # _ \<Rightarrow>
               if CategorySpending.percentage highestCategory > 30 then
                 [\<lparr>SuggestionInput.type = ST_CATEGORY_OPTIMIZATION,
                   SuggestionInput.title = ''AI Category Optimization'',
                   SuggestionInput.description =
                     [JStr ''AI detected '', JStr (CategorySpending.category highestCategory),
                      JStr '' is your highest spending category. Here is how to optimize it.''],
                   SuggestionInput.action = REVIEW_EXPENSES,
                   SuggestionInput.priority = Some P_NORMAL,
                   SuggestionInput.actionAmount = None,
                   SuggestionInput.category = Some (CategorySpending.category highestCategory),
                   SuggestionInput.impact =
                     \<lparr>daysGained = None, moneySaved = None, confidenceScore = 75 / 100\<rparr>,
                   SuggestionInput.expiresAt = None,
                   SuggestionInput.actionData =
                     Some [(''aiTips'',
                            JStrs (generateCategoryTips
                                     (CategorySpending.category highestCategory)))]\<rparr>]
               else []))"

definition aiInvestmentInsight :: "SuggestionInput list" where
  "aiInvestmentInsight =
     [\<lparr>SuggestionInput.type = ST_INVESTMENT,
       SuggestionInput.title = ''AI Investment Insight'',
       SuggestionInput.description =
         [JStr ''Based on your financial patterns, AI suggests considering long-term investments.''],
       SuggestionInput.action = INVEST,
       SuggestionInput.priority = Some P_NORMAL,
       SuggestionInput.actionAmount = None,
       SuggestionInput.category = None,
       SuggestionInput.impact =
         \<lparr>daysGained = None, moneySaved = None, confidenceScore = 7 / 10\<rparr>,
       SuggestionInput.expiresAt = None,
       SuggestionInput.actionData =
         Some [(''aiInsight'',
                JStr ''Your consistent saving pattern indicates readiness for investment'')]\<rparr>]"

text \<open>
  \<^verbatim>\<open>MockAIService.generateSuggestions\<close>, the service \<^verbatim>\<open>createAIService()\<close> returns; it waits
  100 ms and never throws.
\<close>

definition mockGenerateSuggestions ::
  "FinancialContext \<Rightarrow> SpendingAnalytics option \<Rightarrow> SuggestionInput list" where
  "mockGenerateSuggestions ctx analytics =
     aiFuelWarning ctx @ aiCategoryOptimization analytics @ aiInvestmentInsight"

subsection \<open>The suggestions store (src/unnamed/part_005)\<close>

text \<open>The suggestion object \<^verbatim>\<open>addSuggestion\<close> builds from its input.\<close>

definition toSuggestion :: "string \<Rightarrow> int \<Rightarrow> SuggestionInput \<Rightarrow> Suggestion" where
  "toSuggestion newId now suggestionInput =
     \<lparr>Suggestion.id = newId,
      Suggestion.type = SuggestionInput.type suggestionInput,
      Suggestion.title = SuggestionInput.title suggestionInput,
      Suggestion.description = SuggestionInput.description suggestionInput,
      Suggestion.action = SuggestionInput.action suggestionInput,
      Suggestion.priority =
        (case SuggestionInput.priority suggestionInput of Some p \<Rightarrow> p | None \<Rightarrow> P_NORMAL),
      Suggestion.actionAmount = SuggestionInput.actionAmount suggestionInput,
      Suggestion.category = SuggestionInput.category suggestionInput,
      Suggestion.impact = SuggestionInput.impact suggestionInput,
      isApplied = False,
      isDismissed = False,
      Suggestion.createdAt = DateObj now,
      Suggestion.expiresAt = SuggestionInput.expiresAt suggestionInput,
      Suggestion.actionData = SuggestionInput.actionData suggestionInput\<rparr>"

definition addSuggestion :: "SuggestionInput \<Rightarrow> string \<Rightarrow> int \<Rightarrow> SuggestionsState \<Rightarrow> SuggestionsState" where
  "addSuggestion suggestionInput newId now state0 =
     (let state = state0\<lparr>SuggestionsState.isLoading := True, SuggestionsState.error := None\<rparr>;
          suggestion = toSuggestion newId now suggestionInput
      in state\<lparr>suggestions := suggestions state @ [suggestion],
                SuggestionsState.isLoading := False\<rparr>)"

text \<open>
  The \<^verbatim>\<open>forEach\<close> of \<^verbatim>\<open>generateSuggestions\<close>: the k-th suggestion added draws the id
  \<open>ids k\<close>.
\<close>

fun addAll :: "SuggestionInput list \<Rightarrow> (nat \<Rightarrow> string) \<Rightarrow> nat \<Rightarrow> int \<Rightarrow> SuggestionsState \<Rightarrow> SuggestionsState" where
  "addAll [] ids k now st = st"
| "addAll (x # xs) ids k now st = addAll xs ids (Suc k) now (addSuggestion x (ids k) now st)"

definition generateSuggestions ::
  "FinancialContext \<Rightarrow> SpendingAnalytics option \<Rightarrow> (nat \<Rightarrow> string) \<Rightarrow> int
     \<Rightarrow> SuggestionsState \<Rightarrow> SuggestionsState" where
  "generateSuggestions ctx analytics ids now state0 =
     (let st1 = state0\<lparr>isGenerating := True, SuggestionsState.error := None\<rparr>;
          st2 = st1\<lparr>suggestions := filter (\<lambda>s. isApplied s \<or> isDismissed s) (suggestions st1)\<rparr>;
          ruleBasedSuggestions = generateRuleBasedSuggestions ctx;
          aiSuggestions = mockGenerateSuggestions ctx analytics;
          allSuggestions = aiSuggestions @ ruleBasedSuggestions;
          st3 = addAll allSuggestions ids 0 now st2
      in st3\<lparr>lastGenerated := Some (DateObj now), isGenerating := False\<rparr>)"

text \<open>\<^verbatim>\<open>s.expiresAt > now\<close>; an ISO string on the left converts to NaN.\<close>

fun date_gt :: "jsdate \<Rightarrow> int \<Rightarrow> bool" where
  "date_gt (DateObj t) t0 = (t0 < t)"
| "date_gt (IsoString t) t0 = False"

definition getActiveSuggestions :: "int \<Rightarrow> SuggestionsState \<Rightarrow> Suggestion list" where
  "getActiveSuggestions now state =
     filter (\<lambda>s. \<not> isApplied s \<and> \<not> isDismissed s
                 \<and> (case Suggestion.expiresAt s of None \<Rightarrow> True | Some d \<Rightarrow> date_gt d now))
       (suggestions state)"

text \<open>
  The ranking the specification describes: priority descending
  (urgent > high > normal > low), ties by confidence score descending.
\<close>

fun priorityOrder :: "NotificationPriority \<Rightarrow> nat" where
  "priorityOrder P_URGENT = 4"
| "priorityOrder P_HIGH = 3"
| "priorityOrder P_NORMAL = 2"
| "priorityOrder P_LOW = 1"

definition rankedBefore :: "Suggestion \<Rightarrow> Suggestion \<Rightarrow> bool" where
  "rankedBefore a b \<longleftrightarrow>
     priorityOrder (Suggestion.priority a) > priorityOrder (Suggestion.priority b)
     \<or> (priorityOrder (Suggestion.priority a) = priorityOrder (Suggestion.priority b)
         \<and> confidenceScore (Suggestion.impact a) \<ge> confidenceScore (Suggestion.impact b))"

definition isRanked :: "Suggestion list \<Rightarrow> bool" where
  "isRanked xs = sorted_wrt rankedBefore xs"

subsection \<open>Concrete contexts\<close>

definition lowContext :: FinancialContext where
  "lowContext =
     \<lparr>balance = 700, daysLeft = 5, FinancialContext.salary = 10000, avgDailySpend = 140,
      FinancialContext.topCategories = [''Food''], totalExpenses = 4300,
      recurringBillsAmount = 5000\<rparr>"

definition countingIds :: "nat \<Rightarrow> string" where
  "countingIds k = replicate (Suc k) CHR ''s''"

section \<open>Achievements (src/unnamed/part_007)\<close>

datatype AchievementType =
    SAVINGS_STREAK | BUDGET_MASTER | CATEGORY_SAVER | FUEL_EFFICIENT | EMERGENCY_FUND
  | INVESTMENT_STARTER | BILL_TRACKER | EXPENSE_LOGGER

datatype AchievementTier = BRONZE | SILVER | GOLD | PLATINUM

record Progress =
  current :: rat
  target :: rat
  percentage :: rat

record Achievement =
  id :: string
  type :: AchievementType
  title :: string
  description :: string
  tier :: AchievementTier
  icon :: string
  unlockedAt :: "jsdate option"
  progress :: Progress

definition mkAchievement ::
  "string \<Rightarrow> AchievementType \<Rightarrow> string \<Rightarrow> string \<Rightarrow> AchievementTier \<Rightarrow> string \<Rightarrow> rat
     \<Rightarrow> Achievement" where
  "mkAchievement i ty ttl descr tr ic tgt =
     \<lparr>Achievement.id = i, Achievement.type = ty, Achievement.title = ttl,
      Achievement.description = descr, tier = tr, icon = ic, unlockedAt = None,
      progress = \<lparr>current = 0, target = tgt, Progress.percentage = 0\<rparr>\<rparr>"

text \<open>The service's list; the optional \<^verbatim>\<open>rewards\<close> field is set nowhere and left out.\<close>

definition achievements :: "Achievement list" where
  "achievements =
     [mkAchievement ''savings-streak-7'' SAVINGS_STREAK ''Savings Streak Starter''
        ''Save money for 7 consecutive days'' BRONZE ''flame'' 7,
      mkAchievement ''savings-streak-30'' SAVINGS_STREAK ''Savings Streak Master''
        ''Save money for 30 consecutive days'' SILVER ''fire'' 30,
      mkAchievement ''budget-master'' BUDGET_MASTER ''Budget Master''
        ''Stay within budget for an entire month'' GOLD ''trophy'' 30,
      mkAchievement ''category-saver-food'' CATEGORY_SAVER ''Food Frugal''
        ''Reduce food spending by 20% for a month'' BRONZE ''restaurant'' 100,
      mkAchievement ''fuel-efficient'' FUEL_EFFICIENT ''Fuel Efficient''
        ''Maintain over 50% fuel level for 14 days'' SILVER ''speedometer'' 14,
      mkAchievement ''emergency-fund-10k'' EMERGENCY_FUND ''Emergency Fund Starter''
        ''Save 10,000 for emergencies'' GOLD ''shield'' 10000,
      mkAchievement ''investment-starter'' INVESTMENT_STARTER ''Investment Beginner''
        ''Start investing with 1,000'' BRONZE ''trending-up'' 1000,
      mkAchievement ''bill-tracker-10'' BILL_TRACKER ''Bill Tracker Pro''
        ''Track 10 recurring bills'' SILVER ''receipt'' 10,
      mkAchievement ''expense-logger-100'' EXPENSE_LOGGER ''Expense Logging Expert''
        ''Log 100 expenses'' GOLD ''list'' 100]"

definition getAchievementById :: "Achievement list \<Rightarrow> string \<Rightarrow> Achievement option" where
  "getAchievementById achs i = find (\<lambda>achievement. Achievement.id achievement = i) achs"

text \<open>
  \<^verbatim>\<open>updateAchievementProgress\<close> looks the achievement up and mutates the object it found:
  \<open>progressUpdate\<close> is the mutation, with the notification \<^verbatim>\<open>unlockAchievement\<close> hands to the
  notification store; \<open>updateFirst\<close> writes it back at the place of the lookup. No code
  writes \<^verbatim>\<open>target\<close>, and every target of the list is positive. The sum, the quotient and
  the product are each rounded to a double.
\<close>

fun updateFirst :: "('a \<Rightarrow> bool) \<Rightarrow> ('a \<Rightarrow> 'a) \<Rightarrow> 'a list \<Rightarrow> 'a list" where
  "updateFirst P f [] = []"
| "updateFirst P f (x # xs) = (if P x then f x # xs else x # updateFirst P f xs)"

definition progressUpdate :: "rat \<Rightarrow> int \<Rightarrow> Achievement \<Rightarrow> Achievement \<times> NotificationInput list" where
  "progressUpdate increment now achievement =
     (let newCurrent = min (fl (current (progress achievement) + increment))
                           (target (progress achievement));
          newPercentage = js_round (fl (fl (newCurrent / target (progress achievement)) * 100));
          updated = achievement\<lparr>progress :=
                      (progress achievement)\<lparr>current := newCurrent,
                                              Progress.percentage := newPercentage\<rparr>\<rparr>
      in if newPercentage \<ge> 100 \<and> unlockedAt updated = None
         then (updated\<lparr>unlockedAt := Some (DateObj now)\<rparr>,
               [createAchievementNotification (Achievement.title updated)
                  (Achievement.description updated)])
         else (updated, []))"

definition updateAchievementProgress ::
  "string \<Rightarrow> rat \<Rightarrow> int \<Rightarrow> Achievement list \<Rightarrow> Achievement list \<times> NotificationInput list" where
  "updateAchievementProgress achievementId increment now achs =
     (case find (\<lambda>a. Achievement.id a = achievementId) achs of
        None \<Rightarrow> (achs, [])
      | Some achievement \<Rightarrow>
          (updateFirst (\<lambda>a. Achievement.id a = achievementId)
             (\<lambda>a. fst (progressUpdate increment now a)) achs,
           snd (progressUpdate increment now achievement)))"

text \<open>
  A sequence of calls \<^verbatim>\<open>updateAchievementProgress(id, increment)\<close>, each with the clock it
  read; the result is the service's list and the unlock notifications in order.
\<close>

fun runUpdates ::
  "(string \<times> rat \<times> int) list \<Rightarrow> Achievement list \<Rightarrow> Achievement list \<times> NotificationInput list" where
  "runUpdates [] achs = (achs, [])"
| "runUpdates ((i, increment, now) # calls) achs =
     (let step = updateAchievementProgress i increment now achs;
          rest = runUpdates calls (fst step)
      in (fst rest, snd step @ snd rest))"

text \<open>What holds of every achievement the service can hold.\<close>

definition progressInv :: "Achievement \<Rightarrow> bool" where
  "progressInv a \<longleftrightarrow>
     0 < target (progress a)
     \<and> fl (target (progress a)) = target (progress a)
     \<and> current (progress a) \<le> target (progress a)
     \<and> fl (current (progress a)) = current (progress a)
     \<and> Progress.percentage (progress a)
         = js_round (fl (fl (current (progress a) / target (progress a)) * 100))
     \<and> (unlockedAt a = None \<longrightarrow> Progress.percentage (progress a) < 100)"

definition serviceInv :: "Achievement list \<Rightarrow> NotificationInput list \<Rightarrow> bool" where
  "serviceInv achs sent \<longleftrightarrow>
     map Achievement.id achs = map Achievement.id achievements
     \<and> map Achievement.title achs = map Achievement.title achievements
     \<and> (\<forall>a \<in> set achs. progressInv a)
     \<and> distinct sent
     \<and> (\<forall>a \<in> set achs.
           createAchievementNotification (Achievement.title a) (Achievement.description a) \<in> set sent
           \<longrightarrow> unlockedAt a \<noteq> None)"

definition currentOf :: "Achievement list \<Rightarrow> string \<Rightarrow> rat option" where
  "currentOf achs i = map_option (\<lambda>a. current (progress a)) (getAchievementById achs i)"

definition percentageOf :: "Achievement list \<Rightarrow> string \<Rightarrow> rat option" where
  "percentageOf achs i =
     map_option (\<lambda>a. Progress.percentage (progress a)) (getAchievementById achs i)"

definition negativeCalls :: "(string \<times> rat \<times> int) list" where
  "negativeCalls = [(''bill-tracker-10'', 4, 0), (''bill-tracker-10'', - 3, 1)]"

definition unlockCalls :: "(string \<times> rat \<times> int) list" where
  "unlockCalls = [(''bill-tracker-10'', 4, 0), (''bill-tracker-10'', 6, 1)]"

section \<open>Persistence of the app store (src/src/stores/persistence.ts)\<close>

text \<open>The object \<^verbatim>\<open>appStorePersistConfig.partialize\<close> keeps.\<close>

record PersistedApp =
  user :: "UserProfile option"
  salary :: "SalaryData option"
  expenses :: "Expense list"
  recurringBills :: "RecurringBill list"

definition partialize :: "AppState \<Rightarrow> PersistedApp" where
  "partialize state =
     \<lparr>PersistedApp.user = AppState.user state,
      PersistedApp.salary = AppState.salary state,
      PersistedApp.expenses = AppState.expenses state,
      PersistedApp.recurringBills = AppState.recurringBills state\<rparr>"

text \<open>
  \<^verbatim>\<open>JSON.stringify\<close> writes a Date as its ISO string and \<^verbatim>\<open>JSON.parse\<close> reads a string back as
  a string; numbers, strings and booleans come back as they were.
\<close>

fun jsonDate :: "jsdate \<Rightarrow> jsdate" where
  "jsonDate (DateObj t) = IsoString t"
| "jsonDate (IsoString t) = IsoString t"

definition jsonUser :: "UserProfile \<Rightarrow> UserProfile" where
  "jsonUser u = u\<lparr>UserProfile.createdAt := jsonDate (UserProfile.createdAt u),
                  UserProfile.updatedAt := jsonDate (UserProfile.updatedAt u)\<rparr>"

definition jsonSalary :: "SalaryData \<Rightarrow> SalaryData" where
  "jsonSalary s = s\<lparr>lastUpdated := jsonDate (lastUpdated s),
                    nextSalaryDate := jsonDate (nextSalaryDate s)\<rparr>"

definition jsonExpense :: "Expense \<Rightarrow> Expense" where
  "jsonExpense e = e\<lparr>Expense.date := jsonDate (Expense.date e),
                     Expense.createdAt := jsonDate (Expense.createdAt e),
                     Expense.updatedAt := jsonDate (Expense.updatedAt e)\<rparr>"

definition jsonBill :: "RecurringBill \<Rightarrow> RecurringBill" where
  "jsonBill b = b\<lparr>nextDueDate := jsonDate (nextDueDate b),
                  RecurringBill.createdAt := jsonDate (RecurringBill.createdAt b),
                  RecurringBill.updatedAt := jsonDate (RecurringBill.updatedAt b)\<rparr>"

text \<open>\<^verbatim>\<open>saveToStorage\<close>: what \<^verbatim>\<open>JSON.parse\<close> later finds under \<^verbatim>\<open>state\<close> in the stored value.\<close>

definition saveToStorage :: "AppState \<Rightarrow> PersistedApp" where
  "saveToStorage state =
     (let stateToSave = partialize state
      in \<lparr>PersistedApp.user = map_option jsonUser (PersistedApp.user stateToSave),
          PersistedApp.salary = map_option jsonSalary (PersistedApp.salary stateToSave),
          PersistedApp.expenses = map jsonExpense (PersistedApp.expenses stateToSave),
          PersistedApp.recurringBills = map jsonBill (PersistedApp.recurringBills stateToSave)\<rparr>)"

text \<open>
  \<^verbatim>\<open>loadPersistedState\<close>: nothing stored leaves the store as it is; otherwise the stored
  version equals the configured one, no migration runs, and the store becomes the initial
  state overwritten with the four stored fields.
\<close>

definition loadPersistedState :: "PersistedApp option \<Rightarrow> AppState \<Rightarrow> AppState" where
  "loadPersistedState stored state =
     (case stored of
        None \<Rightarrow> state
      | Some finalState \<Rightarrow>
          initialState\<lparr>AppState.user := PersistedApp.user finalState,
                       AppState.salary := PersistedApp.salary finalState,
                       AppState.expenses := PersistedApp.expenses finalState,
                       AppState.recurringBills := PersistedApp.recurringBills finalState\<rparr>)"

definition reload :: "AppState \<Rightarrow> AppState" where
  "reload state = loadPersistedState (Some (saveToStorage state)) initialState"

section \<open>Properties\<close>

lemma foldl_add_sum_list:
  "foldl (\<lambda>acc x. acc + f x) a xs = (a::rat) + sum_list (map f xs)"
  by (induction xs arbitrary: a) (simp_all add: add.assoc)

text \<open>
  C1. For every ledger state, \<open>calculateBalance\<close> returns
  \<open>max 0 (salary.amount - sum of expense amounts - sum of amounts of the bills that are
  active and auto-deducted)\<close>, returns 0 when no salary is set, and is never negative.
\<close>

theorem calculateBalance_spec:
  "calculateBalance state =
     (case AppState.salary state of
        None \<Rightarrow> 0
      | Some sal \<Rightarrow>
          max 0 (SalaryData.amount sal
                 - sum_list (map Expense.amount (AppState.expenses state))
                 - sum_list (map RecurringBill.amount
                     (filter (\<lambda>bill. isActive bill \<and> autoDeduct bill) (AppState.recurringBills state)))))
   \<and> 0 \<le> calculateBalance state"
  by (simp add: calculateBalance_def foldl_add_sum_list split: option.split)

lemma js_round_of_int: "js_round (rat_of_int n) = rat_of_int n"
  unfolding js_round_def by (simp add: floor_eq_iff)

lemma js_round_numeral [simp]: "js_round (numeral k) = numeral k"
  using js_round_of_int [of "numeral k"] by simp

subsection \<open>Rounding to a double\<close>

lemma rne_of_int [simp]: "rne (rat_of_int n) = n"
  by (simp add: rne_def)

lemma rne_bounds: "x - 1 / 2 \<le> rat_of_int (rne x)" "rat_of_int (rne x) \<le> x + 1 / 2"
  unfolding rne_def Let_def by (auto, linarith+)

lemma rne_mono:
  assumes "x \<le> y"
  shows "rne x \<le> rne y"
proof (cases "\<lfloor>x\<rfloor> = \<lfloor>y\<rfloor>")
  case True
  with assms show ?thesis
    unfolding rne_def Let_def by auto
next
  case False
  with assms have "\<lfloor>x\<rfloor> < \<lfloor>y\<rfloor>"
    using floor_mono [of x y] by linarith
  then have "\<lfloor>x\<rfloor> + 1 \<le> \<lfloor>y\<rfloor>"
    by simp
  moreover have "rne x \<le> \<lfloor>x\<rfloor> + 1"
    unfolding rne_def Let_def by auto
  moreover have "\<lfloor>y\<rfloor> \<le> rne y"
    unfolding rne_def Let_def by auto
  ultimately show ?thesis
    by linarith
qed

lemma pow2_pos [simp]: "0 < (2::rat) powi k"
  by (simp add: power_int_def)

lemma pow2_mono: "j \<le> k \<Longrightarrow> (2::rat) powi j \<le> 2 powi k"
  by (rule power_int_increasing) simp_all

lemma pow2_strict_mono: "j < k \<Longrightarrow> (2::rat) powi j < 2 powi k"
  by (rule power_int_strict_increasing) simp_all

lemma binade_bounds:
  assumes "0 < x"
  shows "2 powi binade x \<le> x" and "x < 2 powi (binade x + 1)"
proof -
  have "2 powi binade x \<le> x \<and> x < 2 powi (binade x + 1)"
  proof (cases "1 \<le> x")
    case True
    let ?n = "\<lfloor>x\<rfloor>"
    from True have n: "0 < ?n"
      by simp
    then have b1: "1 \<le> bitlen ?n"
      using bitlen_eq_zero_iff [of ?n] bitlen_nonneg [of ?n] by linarith
    from bitlen_bounds [OF n] have lo: "2 ^ nat (bitlen ?n - 1) \<le> ?n"
      and hi: "?n < 2 ^ nat (bitlen ?n)"
      by simp_all
    from lo have "rat_of_int (2 ^ nat (bitlen ?n - 1)) \<le> rat_of_int ?n"
      by (simp only: of_int_le_iff)
    then have "(2::rat) ^ nat (bitlen ?n - 1) \<le> rat_of_int ?n"
      by simp
    also have "\<dots> \<le> x"
      by simp
    finally have "(2::rat) ^ nat (bitlen ?n - 1) \<le> x" .
    moreover from hi have "?n + 1 \<le> 2 ^ nat (bitlen ?n)"
      by simp
    then have "rat_of_int (?n + 1) \<le> rat_of_int (2 ^ nat (bitlen ?n))"
      by (simp only: of_int_le_iff)
    then have "rat_of_int ?n + 1 \<le> (2::rat) ^ nat (bitlen ?n)"
      by simp
    moreover have "x < rat_of_int ?n + 1"
      by linarith
    ultimately have "x < (2::rat) ^ nat (bitlen ?n)"
      by linarith
    from \<open>(2::rat) ^ nat (bitlen ?n - 1) \<le> x\<close> this show ?thesis
      using True b1 by (simp add: binade_def power_int_nonneg_exp)
  next
    case False
    let ?y = "1 / x"
    let ?m = "\<lceil>?y\<rceil> - 1"
    let ?b = "bitlen ?m"
    from False assms have y1: "1 < ?y"
      by simp
    then have m: "0 < ?m"
      by (simp add: less_ceiling_iff)
    then have b1: "1 \<le> ?b"
      using bitlen_eq_zero_iff [of ?m] bitlen_nonneg [of ?m] by linarith
    from bitlen_bounds [OF m] have lo: "2 ^ nat (?b - 1) \<le> ?m"
      and hi: "?m < 2 ^ nat ?b"
      by simp_all
    have my: "rat_of_int ?m < ?y" "?y \<le> rat_of_int ?m + 1"
      using ceiling_correct [of ?y] by simp_all
    from lo have "rat_of_int (2 ^ nat (?b - 1)) \<le> rat_of_int ?m"
      by (simp only: of_int_le_iff)
    then have "(2::rat) ^ nat (?b - 1) \<le> rat_of_int ?m"
      by simp
    with my(1) have ylo: "(2::rat) ^ nat (?b - 1) < ?y"
      by linarith
    from hi have "?m + 1 \<le> 2 ^ nat ?b"
      by simp
    then have "rat_of_int (?m + 1) \<le> rat_of_int (2 ^ nat ?b)"
      by (simp only: of_int_le_iff)
    then have "rat_of_int ?m + 1 \<le> (2::rat) ^ nat ?b"
      by simp
    with my(2) have yhi: "?y \<le> (2::rat) ^ nat ?b"
      by linarith
    from yhi assms have "1 \<le> x * 2 ^ nat ?b"
      by (simp add: divide_le_eq mult.commute)
    then have xlo: "1 / 2 ^ nat ?b \<le> x"
      by (simp add: divide_le_eq)
    from ylo assms have "x * 2 ^ nat (?b - 1) < 1"
      by (simp add: less_divide_eq mult.commute)
    then have xhi: "x < 1 / 2 ^ nat (?b - 1)"
      by (simp add: less_divide_eq)
    have e1: "(2::rat) powi (- ?b) = 1 / 2 ^ nat ?b"
      by (simp only: power_int_minus_divide power_int_nonneg_exp [OF bitlen_nonneg])
    have "0 \<le> ?b - 1"
      using b1 by simp
    then have "(2::rat) powi (- (?b - 1)) = 1 / 2 ^ nat (?b - 1)"
      by (simp only: power_int_minus_divide power_int_nonneg_exp)
    moreover have "1 - ?b = - (?b - 1)"
      by simp
    ultimately have e2: "(2::rat) powi (1 - ?b) = 1 / 2 ^ nat (?b - 1)"
      by (simp only:)
    from False show ?thesis
      using xlo xhi by (simp add: binade_def e1 e2)
  qed
  then show "2 powi binade x \<le> x" and "x < 2 powi (binade x + 1)"
    by simp_all
qed

lemma binade_unique:
  assumes "0 < x" and "2 powi k \<le> x" and "x < 2 powi (k + 1)"
  shows "binade x = k"
proof (rule ccontr)
  assume ne: "binade x \<noteq> k"
  show False
  proof (cases "binade x < k")
    case True
    then have "(2::rat) powi (binade x + 1) \<le> 2 powi k"
      by (intro pow2_mono) simp
    with binade_bounds(2) [OF assms(1)] assms(2) show False
      by simp
  next
    case False
    with ne have "k + 1 \<le> binade x"
      by simp
    then have "(2::rat) powi (k + 1) \<le> 2 powi binade x"
      by (rule pow2_mono)
    with binade_bounds(1) [OF assms(1)] assms(3) show False
      by simp
  qed
qed

lemma pow2_split:
  "(2::rat) powi k = 2 ^ 52 * 2 powi (k - 52)"
  "(2::rat) powi (k + 1) = 2 ^ 53 * 2 powi (k - 52)"
proof -
  have "(2::rat) powi k = 2 powi (52 + (k - 52))"
    by simp
  also have "\<dots> = 2 powi 52 * 2 powi (k - 52)"
    by (rule power_int_add) simp
  finally show "(2::rat) powi k = 2 ^ 52 * 2 powi (k - 52)"
    by (simp add: power_int_nonneg_exp)
  have "k + 1 = 53 + (k - 52)"
    by simp
  then have "(2::rat) powi (k + 1) = 2 powi (53 + (k - 52))"
    by (simp only:)
  also have "\<dots> = 2 powi 53 * 2 powi (k - 52)"
    by (rule power_int_add) simp
  finally show "(2::rat) powi (k + 1) = 2 ^ 53 * 2 powi (k - 52)"
    by (simp add: power_int_nonneg_exp)
qed

lemma scaled_bounds:
  assumes "0 < (x::rat)" and "2 powi k \<le> x" and "x < 2 powi (k + 1)"
  shows "2 ^ 52 \<le> x / 2 powi (k - 52)" and "x / 2 powi (k - 52) < 2 ^ 53"
  using assms(2,3) unfolding pow2_split [of k]
  by (simp_all add: le_divide_eq divide_less_eq)

lemma rne_range:
  assumes "2 ^ 52 \<le> y" and "y < 2 ^ 53"
  shows "2 ^ 52 \<le> rne y" and "rne y \<le> 2 ^ 53"
proof -
  from assms(1) have "rat_of_int (2 ^ 52) \<le> y"
    by simp
  from rne_mono [OF this] show "2 ^ 52 \<le> rne y"
    by (simp only: rne_of_int)
  from assms(2) have "y \<le> rat_of_int (2 ^ 53)"
    by simp
  from rne_mono [OF this] show "rne y \<le> 2 ^ 53"
    by (simp only: rne_of_int)
qed

lemma fl_eqI:
  assumes "0 < x" and "2 powi k \<le> x" and "x < 2 powi (k + 1)"
  shows "fl x = rat_of_int (rne (x / 2 powi (k - 52))) * 2 powi (k - 52)"
proof -
  from assms have "binade x = k"
    by (rule binade_unique)
  with assms(1) show ?thesis
    by (simp add: fl_def Let_def)
qed

lemma fl_pos_eq:
  assumes "0 < x"
  shows "fl x = rat_of_int (rne (x / 2 powi (binade x - 52))) * 2 powi (binade x - 52)"
  using assms by (simp add: fl_def Let_def)

lemma fl_bounds:
  assumes "0 < x"
  shows "2 powi binade x \<le> fl x" and "fl x \<le> 2 powi (binade x + 1)"
proof -
  let ?k = "binade x"
  let ?e = "?k - 52"
  let ?M = "rne (x / 2 powi ?e)"
  from scaled_bounds [OF assms binade_bounds [OF assms]]
  have "2 ^ 52 \<le> ?M" and "?M \<le> 2 ^ 53"
    by (rule rne_range)+
  then have "rat_of_int (2 ^ 52) \<le> rat_of_int ?M" and "rat_of_int ?M \<le> rat_of_int (2 ^ 53)"
    by (simp_all only: of_int_le_iff)
  then have M: "2 ^ 52 \<le> rat_of_int ?M" "rat_of_int ?M \<le> 2 ^ 53"
    by simp_all
  show "2 powi ?k \<le> fl x"
    unfolding fl_pos_eq [OF assms] pow2_split(1) [of ?k]
    using M(1) by (simp add: mult_right_mono)
  show "fl x \<le> 2 powi (?k + 1)"
    unfolding fl_pos_eq [OF assms] pow2_split(2) [of ?k]
    using M(2) by (simp add: mult_right_mono)
qed

lemma fl_pos: "0 < x \<Longrightarrow> 0 < fl x"
  using fl_bounds(1) [of x] pow2_pos [of "binade x"] by linarith

lemma fl_zero [simp]: "fl 0 = 0"
  by (simp add: fl_def)

lemma fl_minus: "fl (- x) = - fl x"
  by (simp add: fl_def sgn_minus Let_def)

lemma binade_mono:
  assumes "0 < x" and "x \<le> y"
  shows "binade x \<le> binade y"
proof (rule ccontr)
  assume "\<not> binade x \<le> binade y"
  then have "binade y + 1 \<le> binade x"
    by simp
  then have "(2::rat) powi (binade y + 1) \<le> 2 powi binade x"
    by (rule pow2_mono)
  moreover from assms have "0 < y"
    by simp
  ultimately show False
    using binade_bounds(1) [OF assms(1)] binade_bounds(2) [of y] assms(2) by linarith
qed

lemma fl_mono_pos:
  assumes "0 < x" and "x \<le> y"
  shows "fl x \<le> fl y"
proof -
  from assms have y: "0 < y"
    by simp
  show ?thesis
  proof (cases "binade x = binade y")
    case True
    let ?p = "2 powi (binade y - 52) :: rat"
    from assms(2) have "x / ?p \<le> y / ?p"
      by (simp add: divide_right_mono)
    then have "rne (x / ?p) \<le> rne (y / ?p)"
      by (rule rne_mono)
    then have "rat_of_int (rne (x / ?p)) \<le> rat_of_int (rne (y / ?p))"
      by (simp only: of_int_le_iff)
    then show ?thesis
      unfolding fl_pos_eq [OF assms(1)] fl_pos_eq [OF y] True
      by (simp add: mult_right_mono)
  next
    case False
    with binade_mono [OF assms] have "binade x + 1 \<le> binade y"
      by simp
    then have "(2::rat) powi (binade x + 1) \<le> 2 powi binade y"
      by (rule pow2_mono)
    with fl_bounds(2) [OF assms(1)] fl_bounds(1) [OF y] show ?thesis
      by linarith
  qed
qed

lemma fl_nonneg: "0 \<le> x \<Longrightarrow> 0 \<le> fl x"
  using fl_pos [of x] by (cases "x = 0") simp_all

lemma fl_nonpos: "x \<le> 0 \<Longrightarrow> fl x \<le> 0"
  using fl_nonneg [of "- x"] by (simp add: fl_minus)

lemma fl_mono:
  assumes "x \<le> y"
  shows "fl x \<le> fl y"
proof -
  consider "0 < x" | "x \<le> 0" "0 \<le> y" | "y < 0"
    using assms by linarith
  then show ?thesis
  proof cases
    case 1
    then show ?thesis using assms by (rule fl_mono_pos)
  next
    case 2
    then show ?thesis
      using fl_nonpos [of x] fl_nonneg [of y] by linarith
  next
    case 3
    with assms have "0 < - y" and "- y \<le> - x"
      by simp_all
    then have "fl (- y) \<le> fl (- x)"
      by (rule fl_mono_pos)
    then show ?thesis
      by (simp add: fl_minus)
  qed
qed

lemma fl_exact:
  assumes "0 < x" and "2 powi k \<le> x" and "x < 2 powi (k + 1)"
    and "x / 2 powi (k - 52) = rat_of_int m"
  shows "fl x = x"
proof -
  have "fl x = rat_of_int (rne (x / 2 powi (k - 52))) * 2 powi (k - 52)"
    using assms(1-3) by (rule fl_eqI)
  also have "\<dots> = x / 2 powi (k - 52) * 2 powi (k - 52)"
    unfolding assms(4) by simp
  also have "\<dots> = x"
    by simp
  finally show ?thesis .
qed

lemma fl_idem_pos:
  assumes "0 < x"
  shows "fl (fl x) = fl x"
proof -
  let ?k = "binade x"
  let ?e = "?k - 52"
  let ?M = "rne (x / 2 powi ?e)"
  have eq: "fl x = rat_of_int ?M * 2 powi ?e"
    using assms by (rule fl_pos_eq)
  from scaled_bounds [OF assms binade_bounds [OF assms]]
  have M: "2 ^ 52 \<le> ?M" "?M \<le> 2 ^ 53"
    by (rule rne_range)+
  have pos: "0 < fl x"
    using assms by (rule fl_pos)
  show ?thesis
  proof (cases "?M = 2 ^ 53")
    case True
    have top: "fl x = 2 powi (?k + 1)"
      unfolding eq True pow2_split(2) [of ?k] by simp
    have "fl x < 2 powi (?k + 1 + 1)"
      unfolding top by (rule pow2_strict_mono) simp
    moreover have "fl x / 2 powi (?k + 1 - 52) = rat_of_int (2 ^ 52)"
      unfolding top pow2_split(1) [of "?k + 1"] by simp
    ultimately show ?thesis
      using pos top by (intro fl_exact [where k = "?k + 1" and m = "2 ^ 52"]) simp_all
  next
    case False
    with M(2) have "?M < 2 ^ 53"
      by simp
    then have "rat_of_int ?M < rat_of_int (2 ^ 53)"
      by (simp only: of_int_less_iff)
    then have "rat_of_int ?M < 2 ^ 53"
      by simp
    then have "fl x < 2 powi (?k + 1)"
      unfolding eq pow2_split(2) [of ?k] by (simp add: mult_strict_right_mono)
    moreover have "fl x / 2 powi ?e = rat_of_int ?M"
      unfolding eq by simp
    ultimately show ?thesis
      using pos fl_bounds(1) [OF assms] by (intro fl_exact [where k = ?k and m = ?M])
  qed
qed

lemma fl_idem [simp]: "fl (fl x) = fl x"
proof -
  consider "0 < x" | "x = 0" | "x < 0"
    by linarith
  then show ?thesis
  proof cases
    case 1
    then show ?thesis by (rule fl_idem_pos)
  next
    case 2
    then show ?thesis by simp
  next
    case 3
    then have "fl (fl (- x)) = fl (- x)"
      by (intro fl_idem_pos) simp
    then show ?thesis
      by (simp add: fl_minus)
  qed
qed

lemma fl_of_nat_pos:
  assumes "0 < n" and "n \<le> 2 ^ 53"
  shows "fl (rat_of_int n) = rat_of_int n"
proof -
  let ?x = "rat_of_int n"
  let ?k = "binade ?x"
  from assms(1) have x: "0 < ?x"
    by simp
  note b = binade_bounds [OF x]
  have k0: "0 \<le> ?k"
  proof (rule ccontr)
    assume "\<not> 0 \<le> ?k"
    then have "?k + 1 \<le> 0"
      by simp
    then have "(2::rat) powi (?k + 1) \<le> 2 powi 0"
      by (rule pow2_mono)
    with b(2) have "?x < 1"
      by simp
    with assms(1) show False
      by simp
  qed
  from assms(2) have "rat_of_int n \<le> rat_of_int (2 ^ 53)"
    by (simp only: of_int_le_iff)
  then have le: "?x \<le> 2 ^ 53"
    by simp
  show ?thesis
  proof (cases "?k \<le> 52")
    case True
    have "(2::rat) powi (?k - 52) = 1 / 2 ^ nat (52 - ?k)"
    proof -
      have "?k - 52 = - (52 - ?k)" by simp
      moreover have "(2::rat) powi (- (52 - ?k)) = 1 / 2 ^ nat (52 - ?k)"
        using True by (simp only: power_int_minus_divide power_int_nonneg_exp diff_ge_0_iff_ge)
      ultimately show ?thesis by (simp only:)
    qed
    then have "?x / 2 powi (?k - 52) = rat_of_int (n * 2 ^ nat (52 - ?k))"
      by simp
    with x b show ?thesis
      by (rule fl_exact)
  next
    case False
    then have "53 \<le> ?k"
      by simp
    then have "(2::rat) powi 53 \<le> 2 powi ?k"
      by (rule pow2_mono)
    with b(1) le have x53: "?x = 2 ^ 53"
      by (simp add: power_int_nonneg_exp)
    have "(2::rat) ^ 53 / 2 powi (53 - 52) = rat_of_int (2 ^ 52)"
      by simp
    moreover have "(2::rat) ^ 53 < 2 powi (53 + 1)"
      by (simp add: power_int_nonneg_exp)
    moreover have "(2::rat) powi 53 \<le> 2 ^ 53"
      by (simp add: power_int_nonneg_exp)
    ultimately have "fl (2 ^ 53) = (2::rat) ^ 53"
      by (intro fl_exact [where k = 53 and m = "2 ^ 52"]) simp_all
    then show ?thesis
      by (simp only: x53)
  qed
qed

lemma fl_of_int:
  assumes "\<bar>n\<bar> \<le> 2 ^ 53"
  shows "fl (rat_of_int n) = rat_of_int n"
proof -
  consider "0 < n" | "n = 0" | "n < 0"
    by linarith
  then show ?thesis
  proof cases
    case 1
    with assms show ?thesis by (intro fl_of_nat_pos) simp_all
  next
    case 2
    then show ?thesis by simp
  next
    case 3
    with assms have "fl (rat_of_int (- n)) = rat_of_int (- n)"
      by (intro fl_of_nat_pos) simp_all
    then show ?thesis
      by (simp add: fl_minus)
  qed
qed

lemma fl_numeral:
  "numeral k \<le> (2::int) ^ 53 \<Longrightarrow> fl (numeral k) = numeral k"
  using fl_of_int [of "numeral k"] by simp

lemma fl_one [simp]: "fl 1 = 1"
  using fl_of_int [of 1] by simp

lemma rne_eqI:
  assumes "rat_of_int m - 1 / 2 < x" and "x < rat_of_int m + 1 / 2"
  shows "rne x = m"
proof -
  from rne_bounds [of x] assms have "rat_of_int (rne x) < rat_of_int m + 1"
    and "rat_of_int m - 1 < rat_of_int (rne x)"
    by linarith+
  then have "rat_of_int (rne x) < rat_of_int (m + 1)" and "rat_of_int (m - 1) < rat_of_int (rne x)"
    by simp_all
  then have "rne x < m + 1" and "m - 1 < rne x"
    by (simp_all only: of_int_less_iff)
  then show ?thesis
    by simp
qed

lemma fl_evalI:
  assumes "2 ^ 52 \<le> x * 2 ^ n" and "x * 2 ^ n < 2 ^ 53"
    and "rat_of_int m - 1 / 2 < x * 2 ^ n" and "x * 2 ^ n < rat_of_int m + 1 / 2"
  shows "fl x = rat_of_int m / 2 ^ n"
proof -
  let ?k = "52 - int n"
  have p: "(2::rat) powi (?k - 52) = 1 / 2 ^ n"
  proof -
    have "?k - 52 = - int n" by simp
    then show ?thesis
      by (simp only: power_int_minus_divide power_int_of_nat)
  qed
  have x: "0 < x"
  proof (rule ccontr)
    assume "\<not> 0 < x"
    then have "x * 2 ^ n \<le> 0"
      by (simp add: mult_le_0_iff)
    moreover have "(0::rat) < 2 ^ 52"
      by simp
    ultimately show False
      using assms(1) by linarith
  qed
  have lo: "2 powi ?k \<le> x"
    unfolding pow2_split(1) [of ?k] p using assms(1) by (simp add: divide_le_eq)
  have hi: "x < 2 powi (?k + 1)"
    unfolding pow2_split(2) [of ?k] p using assms(2) by (simp add: less_divide_eq)
  have "fl x = rat_of_int (rne (x / 2 powi (?k - 52))) * 2 powi (?k - 52)"
    using x lo hi by (rule fl_eqI)
  also have "x / 2 powi (?k - 52) = x * 2 ^ n"
    unfolding p by simp
  also have "rne (x * 2 ^ n) = m"
    using assms(3,4) by (rule rne_eqI)
  finally show ?thesis
    unfolding p by simp
qed

lemma js_round_eqI:
  assumes "rat_of_int m \<le> x + 1 / 2" and "x + 1 / 2 < rat_of_int m + 1"
  shows "js_round x = rat_of_int m"
  unfolding js_round_def using assms by (simp add: floor_eq_iff)

lemma fl_2_5: "fl (2 / 5) = 3602879701896397 / 9007199254740992"
  using fl_evalI [of "2 / 5" 54 7205759403792794] by simp

lemma fl_29_200: "fl (29 / 200) = 5224175567749775 / 36028797018963968"
  using fl_evalI [of "29 / 200" 55 5224175567749775] by simp

lemma fl_7_10: "fl (7 / 10) = 3152519739159347 / 4503599627370496"
  using fl_evalI [of "7 / 10" 53 6305039478318694] by simp

lemma fl_1_25: "fl (1 / 25) = 5764607523034235 / 144115188075855872"
  using fl_evalI [of "1 / 25" 57 5764607523034235] by simp

lemma percent_2_5: "fl (fl (2 / 5) * 100) = 40"
  unfolding fl_2_5
  using fl_evalI [of "3602879701896397 / 9007199254740992 * 100" 47 5629499534213120] by simp

lemma percent_29_200: "fl (fl (29 / 200) * 100) = 8162774324609023 / 562949953421312"
  unfolding fl_29_200
  using fl_evalI [of "5224175567749775 / 36028797018963968 * 100" 49 8162774324609023] by simp

lemma percent_7_10: "fl (fl (7 / 10) * 100) = 70"
  unfolding fl_7_10
  using fl_evalI [of "3152519739159347 / 4503599627370496 * 100" 46 4925812092436480] by simp

lemma percent_1_25: "fl (fl (1 / 25) * 100) = 4"
  unfolding fl_1_25
  using fl_evalI [of "5764607523034235 / 144115188075855872 * 100" 50 4503599627370496] by simp

lemma round_29_200: "js_round (8162774324609023 / 562949953421312) = 14"
  using js_round_eqI [of 14 "8162774324609023 / 562949953421312"] by simp

lemma round_29_2: "js_round (29 / 2) = 15"
  using js_round_eqI [of 15 "29 / 2"] by simp

lemma fuelPercentage_full:
  assumes "0 < amt" and "amt \<le> bal"
  shows "fuelPercentage bal amt = Some 100"
proof -
  from assms have "1 \<le> bal / amt"
    by (simp add: le_divide_eq)
  then have "fl 1 \<le> fl (bal / amt)"
    by (rule fl_mono)
  then have "100 \<le> fl (bal / amt) * 100"
    by simp
  then have "fl 100 \<le> fl (fl (bal / amt) * 100)"
    by (rule fl_mono)
  then have "100 \<le> fl (fl (bal / amt) * 100)"
    by (simp add: fl_numeral)
  with assms(1) show ?thesis
    by (simp add: fuelPercentage_def)
qed

subsection \<open>The three-expense scenario\<close>

lemma scenario_average:
  "calculateAverageDailySpend today (scenarioState today) = 150"
  by (simp add: calculateAverageDailySpend_def scenarioState_def initialState_def mkExpense_def
        Let_def)

lemma scenario_balance: "calculateBalance (scenarioState t) = 10500"
  by (simp add: calculateBalance_def scenarioState_def initialState_def mkExpense_def
        mkSalary_def Let_def)

lemma scenario_salary: "AppState.salary (scenarioState t) = Some (mkSalary 15000)"
  by (simp add: scenarioState_def initialState_def)

lemma scenario_days:
  "calculateDaysRemaining today (scenarioState today) = 70"
  by (simp add: calculateDaysRemaining_def scenario_average scenario_balance Let_def)

lemma scenario_percentage: "fuelPercentage 10500 15000 = Some 70"
  by (simp add: fuelPercentage_def percent_7_10)

lemma scenarioStored_fields:
  "AppState.salary scenarioStored = Some (mkSalary 15000)"
  "AppState.recurringBills scenarioStored = []"
  "AppState.expenses scenarioStored =
     [mkExpense ''e1'' 2000 FOOD (DateObj scenarioNow),
      mkExpense ''e2'' 1500 TRANSPORT (DateObj (scenarioNow - 86400000)),
      mkExpense ''e3'' 1000 ENTERTAINMENT (DateObj (scenarioNow - 2 * 86400000))]"
  "level (fuelStatus scenarioStored) = HIGH"
  by (simp_all add: scenarioStored_def scenarioState_def initialState_def)

lemma calculateBalance_cong:
  "AppState.salary a = AppState.salary b \<Longrightarrow> AppState.expenses a = AppState.expenses b \<Longrightarrow> AppState.recurringBills a = AppState.recurringBills b
   \<Longrightarrow> calculateBalance a = calculateBalance b"
  by (simp add: calculateBalance_def split: option.splits)

lemma calculateAverageDailySpend_cong:
  "AppState.expenses a = AppState.expenses b
   \<Longrightarrow> calculateAverageDailySpend now a = calculateAverageDailySpend now b"
  by (simp add: calculateAverageDailySpend_def)

lemma calculateDaysRemaining_cong:
  "AppState.salary a = AppState.salary b \<Longrightarrow> AppState.expenses a = AppState.expenses b \<Longrightarrow> AppState.recurringBills a = AppState.recurringBills b
   \<Longrightarrow> calculateDaysRemaining now a = calculateDaysRemaining now b"
  unfolding calculateDaysRemaining_def
  using calculateBalance_cong [of a b] calculateAverageDailySpend_cong [of a b now]
  by simp

lemma scenarioStored_days: "calculateDaysRemaining scenarioNow scenarioStored = 70"
proof -
  have "calculateDaysRemaining scenarioNow scenarioStored
          = calculateDaysRemaining scenarioNow (scenarioState scenarioNow)"
    by (rule calculateDaysRemaining_cong) (simp_all add: scenarioStored_def)
  then show ?thesis
    by (simp add: scenario_days)
qed

text \<open>
  C8, amended. With salary 15000, no bills and exactly three expenses of 2000, 1500 and
  1000, the balance is 10500, the fuel percentage computed from it is 70 and, by the
  thresholds of \<open>getFuelLevel\<close> (above 50, not above 75), the fuel level is high; in a store
  whose level already stands at high, \<open>calculateFuelStatus\<close> returns percentage 70 and level
  high.
\<close>

theorem scenario_fuel:
  assumes "AppState.salary state = Some sal" and "SalaryData.amount sal = 15000"
    and "AppState.recurringBills state = []"
    and "AppState.expenses state = [e1, e2, e3]"
    and "Expense.amount e1 = 2000" and "Expense.amount e2 = 1500" and "Expense.amount e3 = 1000"
  shows "calculateBalance state = 10500
         \<and> fuelPercentage (calculateBalance state) (SalaryData.amount sal) = Some 70
         \<and> getFuelLevel 70 = HIGH
         \<and> (level (fuelStatus state) = HIGH \<longrightarrow>
              calculateFuelStatus now state =
                Inr \<lparr>level = HIGH, FuelStatus.percentage = Some 70,
                     FuelStatus.daysRemaining = calculateDaysRemaining now state,
                     color = ''#22c55e'', warningMessage = None\<rparr>)"
proof -
  have bal: "calculateBalance state = 10500"
    using assms by (simp add: calculateBalance_def)
  have lvl: "getFuelLevel 70 = HIGH"
    by (simp add: getFuelLevel_def)
  show ?thesis
    using assms(1,2)
    by (simp add: bal lvl scenario_percentage calculateFuelStatus_def Let_def)
qed

theorem scenario_fuel_witness:
  "calculateBalance scenarioStored = 10500
   \<and> fuelPercentage (calculateBalance scenarioStored) 15000 = Some 70
   \<and> level (fuelStatus scenarioStored) = HIGH
   \<and> calculateFuelStatus scenarioNow scenarioStored =
        Inr \<lparr>level = HIGH, FuelStatus.percentage = Some 70, FuelStatus.daysRemaining = 70,
             color = ''#22c55e'', warningMessage = None\<rparr>
   \<and> calculateBalance (scenarioState scenarioNow) = 10500
   \<and> fuelPercentage (calculateBalance (scenarioState scenarioNow)) 15000 = Some 70"
  using scenario_fuel [where state = scenarioStored and sal = "mkSalary 15000"
        and now = scenarioNow
        and ?e1.0 = "mkExpense ''e1'' 2000 FOOD (DateObj scenarioNow)"
        and ?e2.0 = "mkExpense ''e2'' 1500 TRANSPORT (DateObj (scenarioNow - 86400000))"
        and ?e3.0 = "mkExpense ''e3'' 1000 ENTERTAINMENT (DateObj (scenarioNow - 2 * 86400000))"]
    scenario_fuel [where state = "scenarioState scenarioNow" and sal = "mkSalary 15000"
        and now = scenarioNow
        and ?e1.0 = "mkExpense ''e1'' 2000 FOOD (DateObj scenarioNow)"
        and ?e2.0 = "mkExpense ''e2'' 1500 TRANSPORT (DateObj (scenarioNow - 86400000))"
        and ?e3.0 = "mkExpense ''e3'' 1000 ENTERTAINMENT (DateObj (scenarioNow - 2 * 86400000))"]
  by (simp add: scenarioStored_fields scenarioStored_days scenario_percentage mkSalary_def
        mkExpense_def scenarioState_def initialState_def)

lemma scenario_throws:
  "calculateFuelStatus scenarioNow (scenarioState scenarioNow)
     = Inl (ReferenceError ''NotificationService'')"
proof -
  have "level (fuelStatus (scenarioState scenarioNow)) = EMPTY"
    by (simp add: scenarioState_def initialState_def initialFuelStatus_def)
  then show ?thesis
    by (simp add: calculateFuelStatus_def scenario_salary scenario_balance Let_def
          mkSalary_def scenario_percentage getFuelLevel_def)
qed

text \<open>
  C8, as stated, fails at the scenario run at the instant \<open>scenarioNow\<close>: the window
  is always 30 days long, so the average is 4500 / 30 = 150 and the days remaining are 70,
  and 70 percent is level high, not medium. With the stored level still at empty, as it is
  once the scenario's actions have run, \<open>calculateFuelStatus\<close> does not return a status at
  all.
\<close>

theorem scenario_counterexample:
  "calculateAverageDailySpend scenarioNow (scenarioState scenarioNow) = 150
   \<and> calculateDaysRemaining scenarioNow (scenarioState scenarioNow) = 70
   \<and> fuelPercentage (calculateBalance (scenarioState scenarioNow)) 15000 = Some 70
   \<and> getFuelLevel 70 = HIGH
   \<and> calculateFuelStatus scenarioNow (scenarioState scenarioNow)
       = Inl (ReferenceError ''NotificationService'')
   \<and> \<not> (\<bar>calculateAverageDailySpend scenarioNow (scenarioState scenarioNow) - 1500\<bar> < 1 / 2
         \<and> calculateDaysRemaining scenarioNow (scenarioState scenarioNow) = 7
         \<and> fuelPercentage (calculateBalance (scenarioState scenarioNow)) 15000 = Some 70
         \<and> getFuelLevel 70 = MEDIUM)"
  by (simp add: scenario_average scenario_days scenario_balance scenario_percentage
        scenario_throws getFuelLevel_def)

subsection \<open>Adding an expense\<close>

lemma addExpense_ledger:
  "AppState.expenses (addExpense inp newId now st) =
     AppState.expenses st @
       [\<lparr>Expense.id = newId,
         Expense.amount = ExpenseInput.amount inp,
         Expense.category = ExpenseInput.category inp,
         Expense.description = ExpenseInput.description inp,
         Expense.date = (case ExpenseInput.date inp of Some d \<Rightarrow> d | None \<Rightarrow> DateObj now),
         Expense.source = (case ExpenseInput.source inp of Some src \<Rightarrow> src | None \<Rightarrow> Manual),
         Expense.tags = ExpenseInput.tags inp,
         Expense.createdAt = DateObj now,
         Expense.updatedAt = DateObj now\<rparr>]"
  "AppState.salary (addExpense inp newId now st) = AppState.salary st"
  "AppState.recurringBills (addExpense inp newId now st) = AppState.recurringBills st"
  by (simp_all add: addExpense_def Let_def split: sum.splits)

lemma salariedState_fields:
  "AppState.salary salariedState = Some (mkSalary 1000)"
  "AppState.expenses salariedState = []"
  "AppState.recurringBills salariedState = []"
  "level (fuelStatus salariedState) = EMPTY"
  "currentBalance salariedState = 0"
  "AppState.daysRemaining salariedState = 0"
  "FuelStatus.percentage (fuelStatus salariedState) = Some 0"
  by (simp_all add: salariedState_def initialState_def)

lemma refund_balance:
  "calculateBalance (addExpense refundInput ''x1'' 0 salariedState) = 1050"
  by (simp add: calculateBalance_def addExpense_ledger salariedState_fields refundInput_def
        mkSalary_def)

lemma refund_throws:
  "AppState.error (addExpense refundInput ''x1'' 0 salariedState)
     = Some (ReferenceError ''NotificationService'')"
  "currentBalance (addExpense refundInput ''x1'' 0 salariedState) = 0"
proof -
  let ?st2 = "salariedState\<lparr>AppState.isLoading := True, AppState.error := None,
     AppState.expenses := [\<lparr>Expense.id = ''x1'', Expense.amount = - 50, Expense.category = FOOD,
       Expense.description = ''refund'', Expense.date = DateObj 0, Expense.source = Manual,
       Expense.tags = None, Expense.createdAt = DateObj 0, Expense.updatedAt = DateObj 0\<rparr>]\<rparr>"
  have bal: "calculateBalance ?st2 = 1050"
    by (simp add: calculateBalance_def salariedState_fields mkSalary_def)
  have pct: "fuelPercentage 1050 1000 = Some 100"
    by (rule fuelPercentage_full) simp_all
  have thr: "calculateFuelStatus 0 ?st2 = Inl (ReferenceError ''NotificationService'')"
    by (simp add: calculateFuelStatus_def salariedState_fields bal pct mkSalary_def Let_def
          getFuelLevel_def)
  have run: "addExpense refundInput ''x1'' 0 salariedState
          = ?st2\<lparr>AppState.error := Some (ReferenceError ''NotificationService''),
                 AppState.isLoading := False\<rparr>"
    by (simp add: addExpense_def Let_def refundInput_def salariedState_fields thr)
  show "AppState.error (addExpense refundInput ''x1'' 0 salariedState)
     = Some (ReferenceError ''NotificationService'')"
    by (simp add: run)
  show "currentBalance (addExpense refundInput ''x1'' 0 salariedState) = 0"
    by (simp add: run salariedState_fields)
qed

text \<open>
  C4, as stated, fails: an input with amount -50 is not rejected. The expense joins the
  ledger, from which the balance is now 1050 instead of 1000. The call stores an error, the
  one every call of \<open>addExpense\<close> ends in, after the ledger has changed.
\<close>

theorem addExpense_nonpositive_accepted:
  "ExpenseInput.amount refundInput \<le> 0
   \<and> AppState.expenses salariedState = []
   \<and> map Expense.amount (AppState.expenses (addExpense refundInput ''x1'' 0 salariedState)) = [- 50]
   \<and> calculateBalance salariedState = 1000
   \<and> calculateBalance (addExpense refundInput ''x1'' 0 salariedState) = 1050
   \<and> AppState.error (addExpense refundInput ''x1'' 0 salariedState)
       = Some (ReferenceError ''NotificationService'')"
  by (simp add: refund_balance refund_throws addExpense_ledger salariedState_fields)
     (simp add: refundInput_def calculateBalance_def salariedState_fields mkSalary_def)

text \<open>
  C4, amended. \<open>addExpense\<close> validates nothing. For every input, whatever the sign of its
  amount, it appends one expense with the input's amount, category and description to the
  ledger and leaves salary and bills as they were.
\<close>

theorem addExpense_appends_every_amount:
  "length (AppState.expenses (addExpense inp newId now st)) = length (AppState.expenses st) + 1
   \<and> butlast (AppState.expenses (addExpense inp newId now st)) = AppState.expenses st
   \<and> Expense.amount (last (AppState.expenses (addExpense inp newId now st))) = ExpenseInput.amount inp
   \<and> Expense.category (last (AppState.expenses (addExpense inp newId now st))) = ExpenseInput.category inp
   \<and> Expense.description (last (AppState.expenses (addExpense inp newId now st)))
       = ExpenseInput.description inp
   \<and> AppState.salary (addExpense inp newId now st) = AppState.salary st
   \<and> AppState.recurringBills (addExpense inp newId now st) = AppState.recurringBills st"
  by (simp add: addExpense_ledger)

subsection \<open>Fuel notifications\<close>

lemma level_change_type:
  "createFuelLevelChangeNotification p c cur = Some n \<Longrightarrow> NotificationInput.type n = FUEL_LOW"
  by (auto simp add: createFuelLevelChangeNotification_def Let_def
        split: if_splits option.splits FuelLevel.splits)

lemma level_change_priority:
  "createFuelLevelChangeNotification p c cur = Some n \<Longrightarrow>
     NotificationInput.priority n
       = Some (case c of EMPTY \<Rightarrow> P_URGENT | CRITICAL \<Rightarrow> P_HIGH | LOW \<Rightarrow> P_HIGH | _ \<Rightarrow> P_NORMAL)"
  by (auto simp add: createFuelLevelChangeNotification_def Let_def
        split: if_splits option.splits FuelLevel.splits)

lemma level_change_iff:
  "createFuelLevelChangeNotification p c cur \<noteq> None
     \<longleftrightarrow> fuelLevelIndex c < fuelLevelIndex p \<and> c \<noteq> HIGH"
  by (cases c; cases p) (simp_all add: createFuelLevelChangeNotification_def Let_def)

lemma other_types:
  "NotificationInput.type (createBigSpendNotification e a b) = BIG_SPEND"
  "NotificationInput.type (createCriticalFuelNotification fs) = FUEL_EMPTY"
  "NotificationInput.type (createFuelLowNotification d pct) = FUEL_LOW"
  by (simp_all add: createBigSpendNotification_def createCriticalFuelNotification_def
        createFuelLowNotification_def Let_def)

lemma filter_level_change:
  "filter (\<lambda>n. NotificationInput.type n = ty)
     (case createFuelLevelChangeNotification p c cur of None \<Rightarrow> [] | Some n \<Rightarrow> [n])
   = (if ty = FUEL_LOW
      then (case createFuelLevelChangeNotification p c cur of None \<Rightarrow> [] | Some n \<Rightarrow> [n])
      else [])"
proof (cases "createFuelLevelChangeNotification p c cur")
  case None
  then show ?thesis by simp
next
  case (Some n)
  from level_change_type [OF Some] Some show ?thesis
    by simp
qed

lemma engine_fuel_low:
  "filter (\<lambda>n. NotificationInput.type n = FUEL_LOW)
     (generateFuelChangeNotifications previous cur recent)
   = (case previous of
        None \<Rightarrow> []
      | Some prev \<Rightarrow>
          (case createFuelLevelChangeNotification (level prev) (level cur) cur of
             None \<Rightarrow> []
           | Some n \<Rightarrow> [n]))"
proof (cases previous)
  case None
  show ?thesis
    unfolding generateFuelChangeNotifications_def filter_append None option.case
    by (cases recent) (simp_all add: other_types)
next
  case (Some prev)
  have same: "createFuelLevelChangeNotification (level cur) (level cur) cur = None"
    by (simp add: createFuelLevelChangeNotification_def)
  show ?thesis
  proof (cases "level prev = level cur")
    case True
    show ?thesis
      unfolding generateFuelChangeNotifications_def filter_append Some option.case True same
      by (cases recent) (simp_all add: other_types Let_def)
  next
    case False
    then have neq: "(level prev \<noteq> level cur) = True"
      by simp
    show ?thesis
      unfolding generateFuelChangeNotifications_def filter_append Some option.case neq if_True
        filter_level_change
      by (cases recent) (simp_all add: other_types Let_def)
  qed
qed

lemma engine_fuel_empty:
  "filter (\<lambda>n. NotificationInput.type n = FUEL_EMPTY)
     (generateFuelChangeNotifications previous cur recent)
   = (if level cur = CRITICAL \<or> level cur = EMPTY
      then [createCriticalFuelNotification cur] else [])"
proof (cases previous)
  case None
  show ?thesis
    unfolding generateFuelChangeNotifications_def filter_append None option.case
    by (cases recent) (simp_all add: other_types)
next
  case (Some prev)
  show ?thesis
  proof (cases "level prev = level cur")
    case True
    show ?thesis
      unfolding generateFuelChangeNotifications_def filter_append Some option.case True
      by (cases recent) (simp_all add: other_types Let_def)
  next
    case False
    then have neq: "(level prev \<noteq> level cur) = True"
      by simp
    show ?thesis
      unfolding generateFuelChangeNotifications_def filter_append Some option.case neq if_True
        filter_level_change
      by (cases recent) (simp_all add: other_types Let_def)
  qed
qed

lemma rent_run:
  "addExpense rentInput ''x1'' 0 salariedState =
     salariedState\<lparr>AppState.expenses :=
         [\<lparr>Expense.id = ''x1'', Expense.amount = 960, Expense.category = RENT,
           Expense.description = ''rent'', Expense.date = DateObj 0, Expense.source = Manual,
           Expense.tags = None, Expense.createdAt = DateObj 0, Expense.updatedAt = DateObj 0\<rparr>],
       currentBalance := 40,
       AppState.daysRemaining := 1,
       AppState.averageDailySpend := 32,
       fuelStatus :=
         \<lparr>level = EMPTY, FuelStatus.percentage = Some 4, FuelStatus.daysRemaining = 1,
          color = ''#991b1b'', warningMessage = Some ''Emergency! Refuel immediately!''\<rparr>,
       AppState.error := Some (ReferenceError ''createBigSpendNotification''),
       AppState.isLoading := False\<rparr>"
proof -
  let ?st2 = "salariedState\<lparr>AppState.isLoading := True, AppState.error := None,
     AppState.expenses := [\<lparr>Expense.id = ''x1'', Expense.amount = 960, Expense.category = RENT,
       Expense.description = ''rent'', Expense.date = DateObj 0, Expense.source = Manual,
       Expense.tags = None, Expense.createdAt = DateObj 0, Expense.updatedAt = DateObj 0\<rparr>]\<rparr>"
  have bal: "calculateBalance ?st2 = 40"
    by (simp add: calculateBalance_def salariedState_fields mkSalary_def)
  have avg: "calculateAverageDailySpend 0 ?st2 = 32"
    by (simp add: calculateAverageDailySpend_def Let_def)
  have days: "calculateDaysRemaining 0 ?st2 = 1"
    by (simp add: calculateDaysRemaining_def bal avg Let_def floor_eq_iff)
  have pct: "fuelPercentage 40 1000 = Some 4"
    by (simp add: fuelPercentage_def percent_1_25)
  have fs: "calculateFuelStatus 0 ?st2 =
        Inr \<lparr>level = EMPTY, FuelStatus.percentage = Some 4, FuelStatus.daysRemaining = 1,
          color = ''#991b1b'', warningMessage = Some ''Emergency! Refuel immediately!''\<rparr>"
    by (simp add: calculateFuelStatus_def salariedState_fields bal pct days mkSalary_def Let_def
          getFuelLevel_def)
  show ?thesis
    by (simp add: addExpense_def Let_def rentInput_def fs bal avg days salariedState_fields)
qed

text \<open>
  C2, as stated, fails: fuel notifications are emitted without a downgrade.
  \<^item> The engine's \<open>generateFuelChangeNotifications\<close> produces its critical alert when the
    level stays critical and when it rises from empty to critical.
  \<^item> \<open>generateFuelNotifications\<close> sends the "empty" push for the store as it is created, before
    any recomputation.
  \<^item> After \<open>addExpense\<close> of 960 at salary 1000 the recomputed level is empty as before, the
    days remaining go from 0 to 1 and the percentage from 0 to 4, and the handler's effect
    hands a low-fuel notification to the notification store.
\<close>

theorem fuel_notification_without_downgrade:
  "generateFuelChangeNotifications (Some criticalStatus) criticalStatus None
       = [createCriticalFuelNotification criticalStatus]
   \<and> fuelLevelIndex (level emptyStatus) < fuelLevelIndex (level criticalStatus)
   \<and> generateFuelChangeNotifications (Some emptyStatus) criticalStatus None
       = [createCriticalFuelNotification criticalStatus]
   \<and> generateFuelNotifications initialState
       = [Push ''Fuel Tank Empty!'' [JStr ''Your balance is critically low. Time to refuel!'']
            [(''type'', JStr ''fuel_empty'')]]
   \<and> level (fuelStatus (addExpense rentInput ''x1'' 0 salariedState))
       = level (fuelStatus salariedState)
   \<and> notificationHandlerRender (Some salariedState) (addExpense rentInput ''x1'' 0 salariedState)
       = [createFuelLowNotification 1 (Some 4)]"
proof -
  have "generateFuelChangeNotifications (Some criticalStatus) criticalStatus None
       = [createCriticalFuelNotification criticalStatus]"
    by (simp add: generateFuelChangeNotifications_def criticalStatus_def)
  moreover have "generateFuelChangeNotifications (Some emptyStatus) criticalStatus None
       = [createCriticalFuelNotification criticalStatus]"
    by (simp add: generateFuelChangeNotifications_def criticalStatus_def emptyStatus_def
          createFuelLevelChangeNotification_def)
  moreover have "fuelLevelIndex (level emptyStatus) < fuelLevelIndex (level criticalStatus)"
    by (simp add: criticalStatus_def emptyStatus_def)
  moreover have "generateFuelNotifications initialState
       = [Push ''Fuel Tank Empty!'' [JStr ''Your balance is critically low. Time to refuel!'']
            [(''type'', JStr ''fuel_empty'')]]"
    by (simp add: generateFuelNotifications_def initialState_def initialFuelStatus_def)
  moreover have "level (fuelStatus (addExpense rentInput ''x1'' 0 salariedState))
       = level (fuelStatus salariedState)"
    by (simp add: rent_run salariedState_fields)
  moreover have "notificationHandlerRender (Some salariedState)
        (addExpense rentInput ''x1'' 0 salariedState) = [createFuelLowNotification 1 (Some 4)]"
    by (simp add: rent_run notificationHandlerRender_def fuelStatusDeps_def fuelStatusEffect_def
          salariedState_fields)
  ultimately show ?thesis
    by simp
qed

text \<open>
  C2, amended. Only the level-change notification of the engine's
  \<open>generateFuelChangeNotifications\<close> (type \<open>FUEL_LOW\<close>) is tied to a downgrade: it is among the
  notifications produced exactly when a previous status is given, the index of the level
  decreases and the new level is not high, and then its priority is urgent for empty, high
  for critical and low, normal for medium. The other fuel notifications depend on the
  current level alone: the engine's critical alert (type \<open>FUEL_EMPTY\<close>) is produced exactly
  when the current level is critical or empty; \<open>generateFuelNotifications\<close> sends a push
  whenever it runs unless the stored level is medium; the handler's effect adds a low-fuel
  notification whenever it runs with the level empty, critical or low, and it runs after the
  first render and after every render in which the level, the days remaining or the
  percentage changed.
\<close>

theorem fuel_notification_triggers:
  "((\<exists>n \<in> set (generateFuelChangeNotifications previous cur recent).
        NotificationInput.type n = FUEL_LOW)
      \<longleftrightarrow> (\<exists>prev. previous = Some prev
                  \<and> fuelLevelIndex (level cur) < fuelLevelIndex (level prev)
                  \<and> level cur \<noteq> HIGH))
   \<and> (\<forall>n \<in> set (generateFuelChangeNotifications previous cur recent).
         NotificationInput.type n = FUEL_LOW \<longrightarrow>
           NotificationInput.priority n
             = Some (case level cur of
                       EMPTY \<Rightarrow> P_URGENT | CRITICAL \<Rightarrow> P_HIGH | LOW \<Rightarrow> P_HIGH | _ \<Rightarrow> P_NORMAL))
   \<and> ((\<exists>n \<in> set (generateFuelChangeNotifications previous cur recent).
         NotificationInput.type n = FUEL_EMPTY)
      \<longleftrightarrow> level cur = CRITICAL \<or> level cur = EMPTY)
   \<and> (generateFuelNotifications st = [] \<longleftrightarrow> level (fuelStatus st) = MEDIUM)
   \<and> (notificationHandlerRender before st \<noteq> []
      \<longleftrightarrow> (before = None \<or> map_option fuelStatusDeps before \<noteq> Some (fuelStatusDeps st))
          \<and> (level (fuelStatus st) = EMPTY \<or> level (fuelStatus st) = CRITICAL
              \<or> level (fuelStatus st) = LOW))"
proof -
  let ?out = "generateFuelChangeNotifications previous cur recent"
  have low: "{n \<in> set ?out. NotificationInput.type n = FUEL_LOW}
        = set (case previous of
                 None \<Rightarrow> []
               | Some prev \<Rightarrow>
                   (case createFuelLevelChangeNotification (level prev) (level cur) cur of
                      None \<Rightarrow> []
                    | Some n \<Rightarrow> [n]))"
    using engine_fuel_low [of previous cur recent, THEN arg_cong, of set] by simp
  have a: "(\<exists>n \<in> set ?out. NotificationInput.type n = FUEL_LOW)
      \<longleftrightarrow> (\<exists>prev. previous = Some prev
                  \<and> fuelLevelIndex (level cur) < fuelLevelIndex (level prev)
                  \<and> level cur \<noteq> HIGH)"
  proof -
    have "(\<exists>n \<in> set ?out. NotificationInput.type n = FUEL_LOW)
            \<longleftrightarrow> {n \<in> set ?out. NotificationInput.type n = FUEL_LOW} \<noteq> {}"
      by auto
    also have "\<dots> \<longleftrightarrow> (\<exists>prev. previous = Some prev
                  \<and> createFuelLevelChangeNotification (level prev) (level cur) cur \<noteq> None)"
    proof (cases previous)
      case None
      then show ?thesis
        unfolding low by simp
    next
      case (Some prev)
      then show ?thesis
        unfolding low
        by (cases "createFuelLevelChangeNotification (level prev) (level cur) cur") simp_all
    qed
    finally show ?thesis
      unfolding level_change_iff .
  qed
  have b: "\<forall>n \<in> set ?out. NotificationInput.type n = FUEL_LOW \<longrightarrow>
           NotificationInput.priority n
             = Some (case level cur of
                       EMPTY \<Rightarrow> P_URGENT | CRITICAL \<Rightarrow> P_HIGH | LOW \<Rightarrow> P_HIGH | _ \<Rightarrow> P_NORMAL)"
  proof (intro ballI impI)
    fix n
    assume "n \<in> set ?out" and "NotificationInput.type n = FUEL_LOW"
    then have "n \<in> {n \<in> set ?out. NotificationInput.type n = FUEL_LOW}"
      by simp
    then have "\<exists>prev::FuelStatus.
                 createFuelLevelChangeNotification (level prev) (level cur) cur = Some n"
      unfolding low
    proof (cases previous)
      case None
      assume "n \<in> set (case previous of
                 None \<Rightarrow> []
               | Some prev \<Rightarrow>
                   (case createFuelLevelChangeNotification (level prev) (level cur) cur of
                      None \<Rightarrow> []
                    | Some n \<Rightarrow> [n]))"
      with None show ?thesis
        by simp
    next
      case (Some prev)
      assume "n \<in> set (case previous of
                 None \<Rightarrow> []
               | Some prev \<Rightarrow>
                   (case createFuelLevelChangeNotification (level prev) (level cur) cur of
                      None \<Rightarrow> []
                    | Some n \<Rightarrow> [n]))"
      with Some have "createFuelLevelChangeNotification (level prev) (level cur) cur = Some n"
        by (cases "createFuelLevelChangeNotification (level prev) (level cur) cur") simp_all
      then show ?thesis by blast
    qed
    then obtain prev :: FuelStatus
      where "createFuelLevelChangeNotification (level prev) (level cur) cur = Some n"
      by blast
    then show "NotificationInput.priority n
             = Some (case level cur of
                       EMPTY \<Rightarrow> P_URGENT | CRITICAL \<Rightarrow> P_HIGH | LOW \<Rightarrow> P_HIGH | _ \<Rightarrow> P_NORMAL)"
      by (rule level_change_priority)
  qed
  have c: "(\<exists>n \<in> set ?out. NotificationInput.type n = FUEL_EMPTY)
      \<longleftrightarrow> level cur = CRITICAL \<or> level cur = EMPTY"
  proof -
    have "(\<exists>n \<in> set ?out. NotificationInput.type n = FUEL_EMPTY)
            \<longleftrightarrow> set (filter (\<lambda>n. NotificationInput.type n = FUEL_EMPTY) ?out) \<noteq> {}"
      by auto
    then show ?thesis
      unfolding engine_fuel_empty by simp
  qed
  have d: "generateFuelNotifications st = [] \<longleftrightarrow> level (fuelStatus st) = MEDIUM"
    by (cases "level (fuelStatus st)") (simp_all add: generateFuelNotifications_def)
  have e: "notificationHandlerRender before st \<noteq> []
      \<longleftrightarrow> (before = None \<or> map_option fuelStatusDeps before \<noteq> Some (fuelStatusDeps st))
          \<and> (level (fuelStatus st) = EMPTY \<or> level (fuelStatus st) = CRITICAL
              \<or> level (fuelStatus st) = LOW)"
    by (cases before) (auto simp add: notificationHandlerRender_def fuelStatusEffect_def)
  from a b c d e show ?thesis
    by blast
qed

theorem fuel_notification_triggers_witness:
  "NotificationInput.type (hd (generateFuelChangeNotifications (Some highStatus) mediumStatus None))
     = FUEL_LOW
   \<and> NotificationInput.priority
        (hd (generateFuelChangeNotifications (Some highStatus) mediumStatus None)) = Some P_NORMAL
   \<and> length (generateFuelChangeNotifications (Some highStatus) mediumStatus None) = 1
   \<and> generateFuelNotifications initialState \<noteq> []
   \<and> notificationHandlerRender None initialState \<noteq> []"
proof -
  let ?out = "generateFuelChangeNotifications (Some highStatus) mediumStatus None"
  note t = fuel_notification_triggers [of "Some highStatus" mediumStatus None initialState None]
  have one: "length ?out = 1"
    by (simp add: generateFuelChangeNotifications_def createFuelLevelChangeNotification_def
          highStatus_def mediumStatus_def)
  then obtain n where out: "?out = [n]"
    by (cases ?out) simp_all
  from t have "\<exists>n \<in> set ?out. NotificationInput.type n = FUEL_LOW"
    by (simp add: highStatus_def mediumStatus_def)
  with out have ty: "NotificationInput.type n = FUEL_LOW"
    by simp
  from t have "\<forall>n \<in> set ?out. NotificationInput.type n = FUEL_LOW \<longrightarrow>
           NotificationInput.priority n
             = Some (case level mediumStatus of
                       EMPTY \<Rightarrow> P_URGENT | CRITICAL \<Rightarrow> P_HIGH | LOW \<Rightarrow> P_HIGH | _ \<Rightarrow> P_NORMAL)"
    by blast
  with out ty have pr: "NotificationInput.priority n = Some P_NORMAL"
    by (simp add: mediumStatus_def)
  from t have "generateFuelNotifications initialState \<noteq> []"
    by (simp add: initialState_def initialFuelStatus_def)
  moreover from t have "notificationHandlerRender None initialState \<noteq> []"
    by (simp add: initialState_def initialFuelStatus_def)
  ultimately show ?thesis
    using one ty pr by (simp add: out)
qed

subsection \<open>Quiet hours\<close>

lemma quietState_fields:
  "settings quietState = quietSettings"
  "notifications quietState = []"
  "unreadCount quietState = 0"
  "enabled (quietHours quietSettings)"
  "startTime (quietHours quietSettings) = ''22:00''"
  "endTime (quietHours quietSettings) = ''08:00''"
  "\<not> fuelAlerts quietSettings"
  by (simp_all add: quietState_def quietSettings_def initialNotificationState_def
        defaultSettings_def)

text \<open>
  C9, as stated, fails. Quiet hours from 22:00 to 08:00 are enabled and it is 23:30; an
  urgent fuel-empty notification arrives while fuel alerts are switched off. The category
  toggle is tested first, and the urgent notification is not recorded.
\<close>

theorem urgent_disabled_type_dropped:
  "enabled (quietHours (settings quietState))
   \<and> startTime (quietHours (settings quietState)) > endTime (quietHours (settings quietState))
   \<and> ''23:30'' \<ge> startTime (quietHours (settings quietState))
   \<and> NotificationInput.priority urgentFuelInput = Some P_URGENT
   \<and> notifications (fst (addNotification urgentFuelInput ''n1'' 0 ''23:30'' quietState)) = []
   \<and> unreadCount (fst (addNotification urgentFuelInput ''n1'' 0 ''23:30'' quietState)) = 0"
  by (simp add: addNotification_def quietState_fields urgentFuelInput_def mkInput_def Let_def)

text \<open>
  C9, amended. Quiet hours are enabled and the current time of day lies in the window:
  between start and end when start < end, at or after start or at or before end when
  start > end. Then \<open>addNotification\<close> drops every notification whose priority is not urgent
  (no record, no count change, nothing sent), and an urgent notification whose category
  toggle is on is recorded at the head of the list, unread, and counted; a notification
  whose category toggle is off is dropped whatever its priority.
\<close>

theorem quiet_hours_gate:
  assumes "enabled (quietHours (settings st))"
    and "(startTime (quietHours (settings st)) < endTime (quietHours (settings st))
          \<and> startTime (quietHours (settings st)) \<le> t \<and> t \<le> endTime (quietHours (settings st)))
       \<or> (startTime (quietHours (settings st)) > endTime (quietHours (settings st))
          \<and> (startTime (quietHours (settings st)) \<le> t \<or> t \<le> endTime (quietHours (settings st))))"
  shows "(NotificationInput.priority inp \<noteq> Some P_URGENT \<longrightarrow>
            notifications (fst (addNotification inp newId now t st)) = notifications st
            \<and> unreadCount (fst (addNotification inp newId now t st)) = unreadCount st
            \<and> snd (addNotification inp newId now t st) = [])
       \<and> (NotificationInput.priority inp = Some P_URGENT
            \<and> isTypeEnabled (settings st) (NotificationInput.type inp) \<longrightarrow>
            (\<exists>n. notifications (fst (addNotification inp newId now t st)) = n # notifications st
                 \<and> AppNotification.id n = newId
                 \<and> AppNotification.title n = NotificationInput.title inp
                 \<and> AppNotification.priority n = P_URGENT
                 \<and> \<not> isRead n)
            \<and> unreadCount (fst (addNotification inp newId now t st)) = unreadCount st + 1)
       \<and> (\<not> isTypeEnabled (settings st) (NotificationInput.type inp) \<longrightarrow>
            notifications (fst (addNotification inp newId now t st)) = notifications st
            \<and> unreadCount (fst (addNotification inp newId now t st)) = unreadCount st
            \<and> snd (addNotification inp newId now t st) = [])"
proof -
  have quiet: "isInQuietHours t (startTime (quietHours (settings st)))
                 (endTime (quietHours (settings st)))"
    using assms(2) by (auto simp add: isInQuietHours_def)
  show ?thesis
    using assms(1) quiet by (simp add: addNotification_def Let_def)
qed

theorem quiet_hours_gate_witness:
  "notifications (fst (addNotification lowFuelInput ''n1'' 0 ''23:30''
       (quietState\<lparr>settings := quietSettings\<lparr>fuelAlerts := True\<rparr>\<rparr>))) = []
   \<and> unreadCount (fst (addNotification urgentSalaryInput ''n2'' 0 ''23:30'' quietState)) = 1"
proof -
  have w1: "''22:00'' > ''08:00'' \<and> (''22:00'' \<le> ''23:30'' \<or> ''23:30'' \<le> ''08:00'')"
    by simp
  have a: "notifications (fst (addNotification lowFuelInput ''n1'' 0 ''23:30''
       (quietState\<lparr>settings := quietSettings\<lparr>fuelAlerts := True\<rparr>\<rparr>))) = []"
    using quiet_hours_gate [of "quietState\<lparr>settings := quietSettings\<lparr>fuelAlerts := True\<rparr>\<rparr>"
        "''23:30''" lowFuelInput "''n1''" 0] w1
    by (simp add: quietState_fields lowFuelInput_def mkInput_def
          quietState_def quietSettings_def initialNotificationState_def)
  have b: "unreadCount (fst (addNotification urgentSalaryInput ''n2'' 0 ''23:30'' quietState)) = 1"
    using quiet_hours_gate [of quietState "''23:30''" urgentSalaryInput "''n2''" 0] w1
    by (simp add: quietState_fields urgentSalaryInput_def mkInput_def)
  from a b show ?thesis by simp
qed

subsection \<open>The unread count\<close>

lemma find_None_filter_id:
  "find (\<lambda>n. AppNotification.id n = i) ns = None
   \<Longrightarrow> filter (\<lambda>n. AppNotification.id n \<noteq> i) ns = ns"
  by (induction ns) (auto split: if_splits)

lemma find_None_map_id:
  "find (\<lambda>n. AppNotification.id n = i) ns = None
   \<Longrightarrow> map (\<lambda>n. if AppNotification.id n = i then n\<lparr>isRead := True\<rparr> else n) ns = ns"
  by (induction ns) (auto split: if_splits)

lemma not_in_ids_find_None:
  "i \<notin> set (map AppNotification.id ns) \<Longrightarrow> find (\<lambda>n. AppNotification.id n = i) ns = None"
  by (induction ns) auto

lemma map_mark_ids:
  "map AppNotification.id
     (map (\<lambda>n. if AppNotification.id n = i then n\<lparr>isRead := True\<rparr> else n) ns)
   = map AppNotification.id ns"
  by (induction ns) auto

lemma mark_unread_count:
  "distinct (map AppNotification.id ns)
   \<Longrightarrow> find (\<lambda>n. AppNotification.id n = i) ns = Some m \<Longrightarrow> \<not> isRead m
   \<Longrightarrow> int (length (filter (\<lambda>n. \<not> isRead n)
          (map (\<lambda>n. if AppNotification.id n = i then n\<lparr>isRead := True\<rparr> else n) ns)))
       = int (length (filter (\<lambda>n. \<not> isRead n) ns)) - 1"
proof (induction ns)
  case Nil
  then show ?case by simp
next
  case (Cons a ns)
  show ?case
  proof (cases "AppNotification.id a = i")
    case True
    with Cons.prems have "a = m" and "i \<notin> set (map AppNotification.id ns)"
      by auto
    then have "find (\<lambda>n. AppNotification.id n = i) ns = None"
      by (simp add: not_in_ids_find_None)
    then show ?thesis
      using True \<open>a = m\<close> Cons.prems(3) by (simp add: find_None_map_id)
  next
    case False
    with Cons show ?thesis by simp
  qed
qed

lemma delete_unread_count:
  "distinct (map AppNotification.id ns)
   \<Longrightarrow> find (\<lambda>n. AppNotification.id n = i) ns = Some m
   \<Longrightarrow> int (length (filter (\<lambda>n. \<not> isRead n) (filter (\<lambda>n. AppNotification.id n \<noteq> i) ns)))
       = int (length (filter (\<lambda>n. \<not> isRead n) ns)) - (if isRead m then 0 else 1)"
proof (induction ns)
  case Nil
  then show ?case by simp
next
  case (Cons a ns)
  show ?case
  proof (cases "AppNotification.id a = i")
    case True
    with Cons.prems have "a = m" and "i \<notin> set (map AppNotification.id ns)"
      by auto
    then have "find (\<lambda>n. AppNotification.id n = i) ns = None"
      by (simp add: not_in_ids_find_None)
    then show ?thesis
      using True \<open>a = m\<close> by (simp add: find_None_filter_id del: filter_filter)
  next
    case False
    with Cons.prems have "distinct (map AppNotification.id ns)"
      and "find (\<lambda>n. AppNotification.id n = i) ns = Some m"
      by simp_all
    then have "int (length (filter (\<lambda>n. \<not> isRead n) (filter (\<lambda>n. AppNotification.id n \<noteq> i) ns)))
       = int (length (filter (\<lambda>n. \<not> isRead n) ns)) - (if isRead m then 0 else 1)"
      by (rule Cons.IH)
    then show ?thesis
      using False by (cases "isRead m") (simp_all del: filter_filter)
  qed
qed

lemma distinct_filter_ids:
  "distinct (map AppNotification.id ns)
   \<Longrightarrow> distinct (map AppNotification.id (filter P ns))"
  by (simp add: distinct_map_filter)

lemma find_Some_unread_pos:
  "find (\<lambda>n. AppNotification.id n = i) ns = Some m \<Longrightarrow> \<not> isRead m
   \<Longrightarrow> 1 \<le> int (length (filter (\<lambda>n. \<not> isRead n) ns))"
proof -
  assume "find (\<lambda>n. AppNotification.id n = i) ns = Some m" and "\<not> isRead m"
  then have "m \<in> set (filter (\<lambda>n. \<not> isRead n) ns)"
    by (auto simp add: find_Some_iff)
  then have "filter (\<lambda>n. \<not> isRead n) ns \<noteq> []"
    by force
  then show ?thesis
    by (cases "filter (\<lambda>n. \<not> isRead n) ns") simp_all
qed

lemma countInv_addNotification:
  "countInv st \<Longrightarrow> newId \<notin> set (map AppNotification.id (notifications st))
   \<Longrightarrow> countInv (fst (addNotification inp newId now t st))"
  by (simp add: countInv_def addNotification_def Let_def)

lemma countInv_markAsRead:
  assumes "countInv st"
  shows "countInv (markAsRead i st)"
proof (cases "find (\<lambda>n. AppNotification.id n = i) (notifications st)")
  case None
  with assms show ?thesis
    by (simp add: countInv_def markAsRead_def Let_def)
next
  case (Some m)
  show ?thesis
  proof (cases "isRead m")
    case True
    with assms Some show ?thesis
      by (simp add: countInv_def markAsRead_def Let_def)
  next
    case False
    from assms have d: "distinct (map AppNotification.id (notifications st))"
      and c: "unreadCount st = int (length (filter (\<lambda>n. \<not> isRead n) (notifications st)))"
      by (simp_all add: countInv_def)
    note dec = mark_unread_count [OF d Some False]
    note pos = find_Some_unread_pos [OF Some False]
    show ?thesis
      using Some False d c dec pos
      by (simp add: countInv_def markAsRead_def Let_def map_mark_ids
            del: map_map)
  qed
qed

lemma countInv_markAllAsRead: "countInv st \<Longrightarrow> countInv (markAllAsRead st)"
  by (simp add: countInv_def markAllAsRead_def Let_def comp_def)

lemma countInv_deleteNotification:
  assumes "countInv st"
  shows "countInv (deleteNotification i st)"
proof -
  from assms have d: "distinct (map AppNotification.id (notifications st))"
    and c: "unreadCount st = int (length (filter (\<lambda>n. \<not> isRead n) (notifications st)))"
    by (simp_all add: countInv_def)
  show ?thesis
  proof (cases "find (\<lambda>n. AppNotification.id n = i) (notifications st)")
    case None
    with d c show ?thesis
      by (simp add: countInv_def deleteNotification_def Let_def find_None_filter_id)
  next
    case (Some m)
    note dec = delete_unread_count [OF d Some]
    show ?thesis
    proof (cases "isRead m")
      case True
      with Some d c dec show ?thesis
        by (simp add: countInv_def deleteNotification_def Let_def distinct_filter_ids
              del: filter_filter)
    next
      case False
      note pos = find_Some_unread_pos [OF Some False]
      from False Some d c dec pos show ?thesis
        by (simp add: countInv_def deleteNotification_def Let_def distinct_filter_ids
              del: filter_filter)
    qed
  qed
qed

lemma countInv_clearAllNotifications: "countInv (clearAllNotifications st)"
  by (simp add: countInv_def clearAllNotifications_def Let_def)

lemma countInv_runOps: "countInv st \<Longrightarrow> idsFresh ops st \<Longrightarrow> countInv (runOps ops st)"
proof (induction ops arbitrary: st)
  case Nil
  then show ?case by simp
next
  case (Cons x xs)
  then show ?case
    by (cases x)
       (simp_all add: countInv_addNotification countInv_markAsRead countInv_markAllAsRead
          countInv_deleteNotification countInv_clearAllNotifications)
qed

lemma markAsRead_noop:
  "(case find (\<lambda>n. AppNotification.id n = i) (notifications st) of
      None \<Rightarrow> True | Some n \<Rightarrow> isRead n)
   \<Longrightarrow> notifications (markAsRead i st) = notifications st
       \<and> unreadCount (markAsRead i st) = unreadCount st"
  by (simp add: markAsRead_def Let_def split: option.splits)

text \<open>
  C10. Start from the empty notification state (any settings) and run any sequence of
  \<open>addNotification\<close>, \<open>markAsRead\<close>, \<open>markAllAsRead\<close>, \<open>deleteNotification\<close> and
  \<open>clearAllNotifications\<close> in which every generated id is new. Then \<open>unreadCount\<close> is the
  number of stored notifications that are not read, so it is not negative; and
  \<open>markAsRead\<close> of an unknown or already read id changes neither the list nor the count.
\<close>

theorem unreadCount_counts_unread:
  assumes "notifications st0 = []" and "unreadCount st0 = 0" and "idsFresh ops st0"
  shows "unreadCount (runOps ops st0) = int (length (getUnreadNotifications (runOps ops st0)))
       \<and> 0 \<le> unreadCount (runOps ops st0)
       \<and> ((case find (\<lambda>n. AppNotification.id n = i) (notifications (runOps ops st0)) of
              None \<Rightarrow> True | Some n \<Rightarrow> isRead n) \<longrightarrow>
            notifications (markAsRead i (runOps ops st0)) = notifications (runOps ops st0)
            \<and> unreadCount (markAsRead i (runOps ops st0)) = unreadCount (runOps ops st0))"
proof -
  have "countInv st0"
    using assms(1,2) by (simp add: countInv_def)
  then have "countInv (runOps ops st0)"
    using assms(3) by (rule countInv_runOps)
  then show ?thesis
    using markAsRead_noop [of i "runOps ops st0"]
    by (simp add: countInv_def getUnreadNotifications_def)
qed

theorem unreadCount_counts_unread_witness:
  "unreadCount (runOps exampleOps initialNotificationState) = 1
   \<and> length (getUnreadNotifications (runOps exampleOps initialNotificationState)) = 1
   \<and> length (notifications (runOps exampleOps initialNotificationState)) = 2"
proof -
  have run: "notifications (runOps exampleOps initialNotificationState) =
      [\<lparr>AppNotification.id = ''n3'', AppNotification.type = FUEL_LOW,
         AppNotification.title = ''Low Fuel'', AppNotification.message = [],
         AppNotification.priority = P_HIGH, isRead = False,
         AppNotification.createdAt = DateObj 2, AppNotification.actionData = None\<rparr>,
       \<lparr>AppNotification.id = ''n1'', AppNotification.type = FUEL_LOW,
         AppNotification.title = ''Low Fuel'', AppNotification.message = [],
         AppNotification.priority = P_HIGH, isRead = True,
         AppNotification.createdAt = DateObj 0, AppNotification.actionData = None\<rparr>]"
    by (simp add: exampleOps_def initialNotificationState_def defaultSettings_def
          addNotification_def markAsRead_def deleteNotification_def Let_def
          lowFuelInput_def urgentSalaryInput_def mkInput_def)
  have fresh: "idsFresh exampleOps initialNotificationState"
    by (simp add: exampleOps_def initialNotificationState_def defaultSettings_def
          addNotification_def markAsRead_def deleteNotification_def Let_def
          lowFuelInput_def urgentSalaryInput_def mkInput_def)
  have "notifications initialNotificationState = []"
    and "unreadCount initialNotificationState = 0"
    by (simp_all add: initialNotificationState_def)
  from unreadCount_counts_unread [OF this fresh, of "''n1''"] show ?thesis
    by (simp add: run getUnreadNotifications_def)
qed

subsection \<open>The emergency rule\<close>

lemma rule_types:
  "\<forall>s \<in> set (investmentRule ctx). SuggestionInput.type s = ST_INVESTMENT"
  "\<forall>s \<in> set (savingsRule ctx). SuggestionInput.type s = ST_SAVINGS"
  "\<forall>s \<in> set (budgetRule ctx). SuggestionInput.type s = ST_BUDGET_ADJUSTMENT"
  "\<forall>s \<in> set (categoryRule ctx). SuggestionInput.type s = ST_CATEGORY_OPTIMIZATION"
  "\<forall>s \<in> set (billRule ctx). SuggestionInput.type s = ST_RECURRING_BILL"
  by (auto simp add: investmentRule_def savingsRule_def budgetRule_def categoryRule_def
        billRule_def Let_def split: list.splits)

lemma filter_other_type:
  "\<forall>s \<in> set xs. SuggestionInput.type s = ty \<Longrightarrow> ty \<noteq> ST_EMERGENCY
   \<Longrightarrow> filter (\<lambda>s. SuggestionInput.type s = ST_EMERGENCY) xs = []"
  by (induction xs) auto

lemma emergency_only_from_emergencyRule:
  "filter (\<lambda>s. SuggestionInput.type s = ST_EMERGENCY) (generateRuleBasedSuggestions ctx)
   = emergencyRule ctx"
proof -
  have "filter (\<lambda>s. SuggestionInput.type s = ST_EMERGENCY) (emergencyRule ctx) = emergencyRule ctx"
    by (simp add: emergencyRule_def)
  then show ?thesis
    by (simp add: generateRuleBasedSuggestions_def
          filter_other_type [OF rule_types(1)] filter_other_type [OF rule_types(2)]
          filter_other_type [OF rule_types(3)] filter_other_type [OF rule_types(4)]
          filter_other_type [OF rule_types(5)])
qed

text \<open>
  C7, as stated, fails. With balance 700 and salary 10000 the balance is not below 5
  percent of the salary (500), and the emergency suggestion is produced.
\<close>

theorem emergency_above_five_percent:
  "balance lowContext \<ge> (5 / 100) * FinancialContext.salary lowContext
   \<and> filter (\<lambda>s. SuggestionInput.type s = ST_EMERGENCY) (generateRuleBasedSuggestions lowContext)
       \<noteq> []"
  by (simp add: emergency_only_from_emergencyRule emergencyRule_def lowContext_def)

text \<open>
  C7, amended. The rule-based generator produces the urgent emergency suggestion (reduce
  spending) exactly when balance < 0.10 * salary, once, and none otherwise.
\<close>

theorem emergency_threshold:
  "map (\<lambda>s. (SuggestionInput.priority s, SuggestionInput.action s))
     (filter (\<lambda>s. SuggestionInput.type s = ST_EMERGENCY) (generateRuleBasedSuggestions ctx))
   = (if balance ctx < (10 / 100) * FinancialContext.salary ctx
      then [(Some P_URGENT, REDUCE_SPENDING)] else [])"
  by (simp add: emergency_only_from_emergencyRule emergencyRule_def)

subsection \<open>Generating suggestions\<close>

lemma addAll_suggestions:
  "suggestions (addAll xs ids k now st)
   = suggestions st @ map (\<lambda>(j, x). toSuggestion (ids j) now x) (zip [k ..< k + length xs] xs)"
proof (induction xs arbitrary: k st)
  case Nil
  then show ?case by simp
next
  case (Cons x xs)
  have "[k ..< k + length (x # xs)] = k # [Suc k ..< Suc k + length xs]"
    by (simp add: upt_rec)
  then show ?case
    by (simp add: Cons.IH addSuggestion_def Let_def)
qed

lemma generated_never_expire:
  "\<forall>x \<in> set (mockGenerateSuggestions ctx analytics @ generateRuleBasedSuggestions ctx).
     SuggestionInput.expiresAt x = None"
  by (auto simp add: mockGenerateSuggestions_def generateRuleBasedSuggestions_def
        aiFuelWarning_def aiCategoryOptimization_def aiInvestmentInsight_def
        emergencyRule_def investmentRule_def savingsRule_def budgetRule_def categoryRule_def
        billRule_def Let_def split: option.splits list.splits if_splits)

lemma rule_lengths:
  "length (emergencyRule ctx) \<le> 1" "length (investmentRule ctx) \<le> 1"
  "length (savingsRule ctx) \<le> 1" "length (budgetRule ctx) \<le> 1"
  "length (categoryRule ctx) \<le> 1" "length (billRule ctx) \<le> 1"
  "length (aiFuelWarning ctx) \<le> 1" "length (aiCategoryOptimization analytics) \<le> 1"
  "length aiInvestmentInsight = 1"
  by (simp_all add: emergencyRule_def investmentRule_def savingsRule_def budgetRule_def
        categoryRule_def billRule_def aiFuelWarning_def aiCategoryOptimization_def
        aiInvestmentInsight_def Let_def split: option.splits list.splits)

lemma toSuggestion_fields:
  "\<not> isApplied (toSuggestion i now x)" "\<not> isDismissed (toSuggestion i now x)"
  "Suggestion.expiresAt (toSuggestion i now x) = SuggestionInput.expiresAt x"
  by (simp_all add: toSuggestion_def)

lemma filter_map_all:
  "\<forall>x \<in> set xs. P (f x) \<Longrightarrow> filter P (map f xs) = map f xs"
  by (induction xs) auto

lemma filter_none:
  "\<forall>x \<in> set xs. \<not> P x \<Longrightarrow> filter P xs = []"
  by (induction xs) auto

lemma active_after_generate:
  "getActiveSuggestions later (generateSuggestions ctx analytics ids now st)
   = map (\<lambda>(j, x). toSuggestion (ids j) now x)
       (zip [0 ..< length (mockGenerateSuggestions ctx analytics @ generateRuleBasedSuggestions ctx)]
          (mockGenerateSuggestions ctx analytics @ generateRuleBasedSuggestions ctx))"
proof -
  let ?all = "mockGenerateSuggestions ctx analytics @ generateRuleBasedSuggestions ctx"
  let ?act = "\<lambda>s. \<not> isApplied s \<and> \<not> isDismissed s
                 \<and> (case Suggestion.expiresAt s of None \<Rightarrow> True | Some d \<Rightarrow> date_gt d later)"
  have sugg: "suggestions (generateSuggestions ctx analytics ids now st)
      = filter (\<lambda>s. isApplied s \<or> isDismissed s) (suggestions st)
        @ map (\<lambda>(j, x). toSuggestion (ids j) now x) (zip [0 ..< length ?all] ?all)"
    using addAll_suggestions [of ?all ids 0 now]
    by (simp add: generateSuggestions_def Let_def)
  have old: "filter ?act (filter (\<lambda>s. isApplied s \<or> isDismissed s) (suggestions st)) = []"
    by (rule filter_none) auto
  have "\<forall>p \<in> set (zip [0 ..< length ?all] ?all). SuggestionInput.expiresAt (snd p) = None"
    using generated_never_expire [of ctx analytics] by (auto dest: set_zip_rightD)
  then have new: "filter ?act (map (\<lambda>(j, x). toSuggestion (ids j) now x) (zip [0 ..< length ?all] ?all))
      = map (\<lambda>(j, x). toSuggestion (ids j) now x) (zip [0 ..< length ?all] ?all)"
    by (intro filter_map_all) (auto simp add: toSuggestion_fields)
  show ?thesis
    unfolding getActiveSuggestions_def sugg filter_append old new by simp
qed

lemma exclusive_rules:
  "length (aiFuelWarning ctx) + length (savingsRule ctx) \<le> 1"
  "length (budgetRule ctx) + length (investmentRule ctx) \<le> 1"
  by (simp_all add: aiFuelWarning_def savingsRule_def budgetRule_def investmentRule_def Let_def)

lemma generated_length:
  "length (mockGenerateSuggestions ctx analytics @ generateRuleBasedSuggestions ctx) \<le> 7"
  using rule_lengths(1) [of ctx] rule_lengths(5,6) [of ctx] rule_lengths(8) [of analytics]
    rule_lengths(9) exclusive_rules [of ctx]
  by (simp add: mockGenerateSuggestions_def generateRuleBasedSuggestions_def)

lemma lowContext_generated:
  "map (\<lambda>x. (SuggestionInput.priority x, confidenceScore (SuggestionInput.impact x)))
     (mockGenerateSuggestions lowContext None @ generateRuleBasedSuggestions lowContext)
   = [(Some P_HIGH, 85 / 100), (Some P_NORMAL, 7 / 10), (Some P_URGENT, 9 / 10),
      (Some P_HIGH, 85 / 100), (Some P_NORMAL, 6 / 10), (Some P_NORMAL, 75 / 100)]"
  by (simp add: mockGenerateSuggestions_def generateRuleBasedSuggestions_def
        aiFuelWarning_def aiCategoryOptimization_def aiInvestmentInsight_def
        emergencyRule_def investmentRule_def savingsRule_def budgetRule_def categoryRule_def
        billRule_def lowContext_def)

lemma generated_projection:
  "length ns = length xs \<Longrightarrow>
   map (\<lambda>s. (Suggestion.priority s, confidenceScore (Suggestion.impact s)))
     (map (\<lambda>(j, x). toSuggestion (ids j) now x) (zip ns xs))
   = map (\<lambda>x. (case SuggestionInput.priority x of Some p \<Rightarrow> p | None \<Rightarrow> P_NORMAL,
                confidenceScore (SuggestionInput.impact x))) xs"
  by (induction ns xs rule: list_induct2) (simp_all add: toSuggestion_def)

lemma lowContext_active:
  "map (\<lambda>s. (Suggestion.priority s, confidenceScore (Suggestion.impact s)))
     (getActiveSuggestions 0
        (generateSuggestions lowContext None countingIds 0 initialSuggestionsState))
   = [(P_HIGH, 85 / 100), (P_NORMAL, 7 / 10), (P_URGENT, 9 / 10),
      (P_HIGH, 85 / 100), (P_NORMAL, 6 / 10), (P_NORMAL, 75 / 100)]"
proof -
  let ?all = "mockGenerateSuggestions lowContext None @ generateRuleBasedSuggestions lowContext"
  have "map (\<lambda>x. (case SuggestionInput.priority x of Some p \<Rightarrow> p | None \<Rightarrow> P_NORMAL,
                     confidenceScore (SuggestionInput.impact x))) ?all
      = map (\<lambda>(p, c). (case p of Some p \<Rightarrow> p | None \<Rightarrow> P_NORMAL, c))
          (map (\<lambda>x. (SuggestionInput.priority x, confidenceScore (SuggestionInput.impact x))) ?all)"
    by (simp del: map_append)
  also have "\<dots> = [(P_HIGH, 85 / 100), (P_NORMAL, 7 / 10), (P_URGENT, 9 / 10),
      (P_HIGH, 85 / 100), (P_NORMAL, 6 / 10), (P_NORMAL, 75 / 100)]"
    unfolding lowContext_generated by simp
  finally show ?thesis
    unfolding active_after_generate
    by (subst generated_projection) simp_all
qed

lemma isRanked_proj:
  "isRanked xs \<longleftrightarrow>
     sorted_wrt (\<lambda>a b. priorityOrder (fst a) > priorityOrder (fst b)
                       \<or> (priorityOrder (fst a) = priorityOrder (fst b) \<and> snd a \<ge> snd b))
       (map (\<lambda>s. (Suggestion.priority s, confidenceScore (Suggestion.impact s))) xs)"
  by (simp add: isRanked_def sorted_wrt_map rankedBefore_def [abs_def])

text \<open>
  C3, as stated, fails. For a context with balance 700, salary 10000, 5 days left, a top
  category and recurring bills of 5000, the active list after \<open>generateSuggestions\<close> has six
  entries, the two of the AI service first: a normal-priority one precedes the urgent one.
\<close>

theorem generated_six_unranked:
  "length (getActiveSuggestions 0
             (generateSuggestions lowContext None countingIds 0 initialSuggestionsState)) = 6
   \<and> \<not> isRanked (getActiveSuggestions 0
                    (generateSuggestions lowContext None countingIds 0 initialSuggestionsState))"
proof -
  have "length (getActiveSuggestions 0
             (generateSuggestions lowContext None countingIds 0 initialSuggestionsState)) = 6"
    using arg_cong [OF lowContext_active, of length] by simp
  then show ?thesis
    by (simp add: isRanked_proj lowContext_active)
qed

text \<open>
  C3, amended. After \<open>generateSuggestions\<close> completes, the active suggestions are the ones
  just generated, in generation order: those of the AI service first, then the rule-based
  ones in the order of the rules, each built from its input with its own id. There are at
  most seven of them (the rules for fewer than 10 and for more than 20 days left exclude
  each other); they are not ranked by priority or confidence.
\<close>

theorem generateSuggestions_active:
  "getActiveSuggestions later (generateSuggestions ctx analytics ids now st)
     = map (\<lambda>(j, x). toSuggestion (ids j) now x)
         (zip [0 ..< length (mockGenerateSuggestions ctx analytics @ generateRuleBasedSuggestions ctx)]
            (mockGenerateSuggestions ctx analytics @ generateRuleBasedSuggestions ctx))
   \<and> length (getActiveSuggestions later (generateSuggestions ctx analytics ids now st)) \<le> 7"
  using generated_length [of ctx analytics] by (simp add: active_after_generate)

subsection \<open>Achievement progress\<close>

lemma js_round_le_100: "x \<le> 100 \<Longrightarrow> js_round x \<le> 100"
proof -
  assume "x \<le> 100"
  then have "\<lfloor>x + 1 / 2\<rfloor> \<le> 100"
    by (simp add: floor_le_iff)
  then have "rat_of_int \<lfloor>x + 1 / 2\<rfloor> \<le> rat_of_int 100"
    by (simp only: of_int_le_iff)
  then show ?thesis
    by (simp add: js_round_def)
qed

lemma js_round_zero [simp]: "js_round 0 = 0"
  using js_round_of_int [of 0] by simp

lemma percent_le_100:
  assumes "0 < t" and "c \<le> t"
  shows "js_round (fl (fl (c / t) * 100)) \<le> 100"
proof -
  from assms have "c / t \<le> 1"
    by (simp add: divide_le_eq)
  then have "fl (c / t) \<le> fl 1"
    by (rule fl_mono)
  then have "fl (c / t) * 100 \<le> 100"
    by simp
  then have "fl (fl (c / t) * 100) \<le> fl 100"
    by (rule fl_mono)
  then have "fl (fl (c / t) * 100) \<le> 100"
    by (simp add: fl_numeral)
  then show ?thesis
    by (rule js_round_le_100)
qed

lemma progressUpdate_fields:
  "Achievement.id (fst (progressUpdate inc now a)) = Achievement.id a"
  "Achievement.title (fst (progressUpdate inc now a)) = Achievement.title a"
  "Achievement.description (fst (progressUpdate inc now a)) = Achievement.description a"
  "target (progress (fst (progressUpdate inc now a))) = target (progress a)"
  "current (progress (fst (progressUpdate inc now a)))
     = min (fl (current (progress a) + inc)) (target (progress a))"
  "Progress.percentage (progress (fst (progressUpdate inc now a)))
     = js_round (fl (fl (min (fl (current (progress a) + inc)) (target (progress a))
                         / target (progress a)) * 100))"
  by (simp_all add: progressUpdate_def Let_def)

lemma progressUpdate_unlock:
  "snd (progressUpdate inc now a) =
     (if 100 \<le> Progress.percentage (progress (fst (progressUpdate inc now a)))
         \<and> unlockedAt a = None
      then [createAchievementNotification (Achievement.title a) (Achievement.description a)]
      else [])"
  "unlockedAt (fst (progressUpdate inc now a)) =
     (if 100 \<le> Progress.percentage (progress (fst (progressUpdate inc now a)))
         \<and> unlockedAt a = None
      then Some (DateObj now) else unlockedAt a)"
  by (simp_all add: progressUpdate_def Let_def)

lemma progressInv_step:
  assumes "progressInv a"
  shows "progressInv (fst (progressUpdate inc now a))"
proof -
  let ?a' = "fst (progressUpdate inc now a)"
  from assms have t: "0 < target (progress a)" and ft: "fl (target (progress a)) = target (progress a)"
    by (simp_all add: progressInv_def)
  have c: "current (progress ?a') \<le> target (progress ?a')"
    by (simp add: progressUpdate_fields)
  have fc: "fl (current (progress ?a')) = current (progress ?a')"
    by (simp add: progressUpdate_fields min_def ft)
  have p: "Progress.percentage (progress ?a')
             = js_round (fl (fl (current (progress ?a') / target (progress ?a')) * 100))"
    by (simp add: progressUpdate_fields)
  have u: "unlockedAt ?a' = None \<longrightarrow> Progress.percentage (progress ?a') < 100"
    by (auto simp add: progressUpdate_unlock(2) split: if_splits)
  from t ft c fc p u show ?thesis
    unfolding progressInv_def by (simp add: progressUpdate_fields(4))
qed

lemma progressInv_percentage_le:
  assumes "progressInv a"
  shows "Progress.percentage (progress a) \<le> 100"
proof -
  from assms have t: "0 < target (progress a)"
    and c: "current (progress a) \<le> target (progress a)"
    and p: "Progress.percentage (progress a)
              = js_round (fl (fl (current (progress a) / target (progress a)) * 100))"
    by (simp_all add: progressInv_def)
  show ?thesis
    unfolding p using t c by (rule percent_le_100)
qed

lemma progress_monotone:
  assumes "progressInv a"
  shows "0 \<le> inc \<Longrightarrow> current (progress a) \<le> current (progress (fst (progressUpdate inc now a)))"
    and "inc \<le> 0 \<Longrightarrow> current (progress (fst (progressUpdate inc now a))) \<le> current (progress a)"
proof -
  from assms have c: "current (progress a) \<le> target (progress a)"
    and fc: "fl (current (progress a)) = current (progress a)"
    by (simp_all add: progressInv_def)
  {
    assume "0 \<le> inc"
    then have "fl (current (progress a)) \<le> fl (current (progress a) + inc)"
      by (intro fl_mono) simp
    with c show "current (progress a) \<le> current (progress (fst (progressUpdate inc now a)))"
      by (simp add: progressUpdate_fields fc)
  }
  {
    assume "inc \<le> 0"
    then have "fl (current (progress a) + inc) \<le> fl (current (progress a))"
      by (intro fl_mono) simp
    then show "current (progress (fst (progressUpdate inc now a))) \<le> current (progress a)"
      by (simp add: progressUpdate_fields fc min_le_iff_disj)
  }
qed

lemma find_updateFirst:
  "(\<And>x. P (f x) = P x) \<Longrightarrow> find P (updateFirst P f xs) = map_option f (find P xs)"
  by (induction xs) simp_all

lemma map_updateFirst:
  "(\<And>x. g (f x) = g x) \<Longrightarrow> map g (updateFirst P f xs) = map g xs"
  by (induction xs) simp_all

lemma set_updateFirst:
  "distinct (map g xs) \<Longrightarrow> (\<And>x. P x \<longleftrightarrow> g x = k) \<Longrightarrow> find P xs = Some a
   \<Longrightarrow> set (updateFirst P f xs) = insert (f a) (set xs - {a})"
proof (induction xs)
  case Nil
  then show ?case by simp
next
  case (Cons x xs)
  show ?case
  proof (cases "P x")
    case True
    with Cons.prems have "x = a" by simp
    moreover from Cons.prems(1) have "x \<notin> set xs"
      by auto
    ultimately show ?thesis
      using True by auto
  next
    case False
    from Cons.prems(3) False have f: "find P xs = Some a"
      by simp
    from Cons.prems(1) have d: "distinct (map g xs)"
      by simp
    have "a \<in> set xs" and "P a"
      using f by (auto simp add: find_Some_iff)
    with False have "x \<noteq> a"
      by auto
    from Cons.IH [OF d Cons.prems(2) f] False \<open>x \<noteq> a\<close> show ?thesis
      by auto
  qed
qed

lemma achievements_distinct:
  "distinct (map Achievement.id achievements)"
  "distinct (map Achievement.title achievements)"
  by (simp_all add: achievements_def mkAchievement_def)

lemma serviceInv_initial: "serviceInv achievements []"
  by (simp add: serviceInv_def)
     (simp add: achievements_def mkAchievement_def progressInv_def fl_numeral)

lemma createAchievementNotification_inject:
  "createAchievementNotification t1 d1 = createAchievementNotification t2 d2
   \<Longrightarrow> t1 = t2"
  by (simp add: createAchievementNotification_def)

lemma serviceInv_step:
  assumes inv: "serviceInv achs sent"
  shows "serviceInv (fst (updateAchievementProgress i inc now achs))
           (sent @ snd (updateAchievementProgress i inc now achs))"
proof (cases "find (\<lambda>a. Achievement.id a = i) achs")
  case None
  with inv show ?thesis
    by (simp add: updateAchievementProgress_def)
next
  case (Some a)
  let ?f = "\<lambda>a. fst (progressUpdate inc now a)"
  let ?note = "\<lambda>a. createAchievementNotification (Achievement.title a) (Achievement.description a)"
  let ?achs' = "updateFirst (\<lambda>a. Achievement.id a = i) ?f achs"
  let ?new = "snd (progressUpdate inc now a)"
  from inv have ids: "map Achievement.id achs = map Achievement.id achievements"
    and titles: "map Achievement.title achs = map Achievement.title achievements"
    and pinv: "\<forall>a \<in> set achs. progressInv a"
    and dsent: "distinct sent"
    and unl: "\<forall>a \<in> set achs. ?note a \<in> set sent \<longrightarrow> unlockedAt a \<noteq> None"
    by (simp_all add: serviceInv_def)
  from ids have dids: "distinct (map Achievement.id achs)"
    by (simp add: achievements_distinct)
  from titles have dtitles: "distinct (map Achievement.title achs)"
    by (simp add: achievements_distinct)
  from Some have a_in: "a \<in> set achs"
    by (auto simp add: find_Some_iff)
  have set': "set ?achs' = insert (?f a) (set achs - {a})"
    using dids _ Some by (rule set_updateFirst) simp
  have step: "updateAchievementProgress i inc now achs = (?achs', ?new)"
    using Some by (simp add: updateAchievementProgress_def)
  have ids': "map Achievement.id ?achs' = map Achievement.id achievements"
    by (simp add: map_updateFirst progressUpdate_fields ids)
  have titles': "map Achievement.title ?achs' = map Achievement.title achievements"
    by (simp add: map_updateFirst progressUpdate_fields titles)
  have pinv': "\<forall>b \<in> set ?achs'. progressInv b"
    using pinv a_in by (auto simp add: set' progressInv_step)
  have new: "?new = (if 100 \<le> Progress.percentage (progress (?f a)) \<and> unlockedAt a = None
                     then [?note a] else [])"
    by (rule progressUpdate_unlock(1))
  have dsent': "distinct (sent @ ?new)"
    using dsent unl a_in by (auto simp add: new)
  have unl': "\<forall>b \<in> set ?achs'. ?note b \<in> set (sent @ ?new) \<longrightarrow> unlockedAt b \<noteq> None"
  proof
    fix b
    assume b_in: "b \<in> set ?achs'"
    show "?note b \<in> set (sent @ ?new) \<longrightarrow> unlockedAt b \<noteq> None"
    proof (cases "b = ?f a")
      case True
      have "?note (?f a) = ?note a"
        by (simp add: progressUpdate_fields)
      with True unl a_in show ?thesis
        by (auto simp add: new progressUpdate_unlock(2))
    next
      case False
      with b_in have b_old: "b \<in> set achs" and ba: "b \<noteq> a"
        by (simp_all add: set')
      from dtitles b_old a_in ba have "Achievement.title b \<noteq> Achievement.title a"
        by (auto simp add: distinct_map inj_on_def)
      then have "?note b \<noteq> ?note a"
        using createAchievementNotification_inject by blast
      with unl b_old show ?thesis
        by (auto simp add: new)
    qed
  qed
  show ?thesis
    unfolding step fst_conv snd_conv serviceInv_def
    using ids' titles' pinv' dsent' unl' by blast
qed

lemma serviceInv_run:
  "serviceInv achs sent
   \<Longrightarrow> serviceInv (fst (runUpdates calls achs)) (sent @ snd (runUpdates calls achs))"
proof (induction calls arbitrary: achs sent)
  case Nil
  then show ?case by simp
next
  case (Cons c calls)
  obtain i inc now where c: "c = (i, inc, now)"
    by (cases c) auto
  from Cons.prems have "serviceInv (fst (updateAchievementProgress i inc now achs))
                          (sent @ snd (updateAchievementProgress i inc now achs))"
    by (rule serviceInv_step)
  from Cons.IH [OF this] show ?case
    by (simp add: c Let_def)
qed

lemma reachable_inv:
  "serviceInv (fst (runUpdates calls achievements)) (snd (runUpdates calls achievements))"
  using serviceInv_run [OF serviceInv_initial, of calls] by simp

lemma bill_after_first:
  "updateAchievementProgress ''bill-tracker-10'' 4 0 achievements
   = (achievements[7 := (achievements ! 7)\<lparr>progress :=
          \<lparr>current = 4, target = 10, Progress.percentage = 40\<rparr>\<rparr>], [])"
  by (simp add: updateAchievementProgress_def achievements_def mkAchievement_def
        progressUpdate_def Let_def fl_numeral percent_2_5)

lemma emergency_fund_1450:
  "percentageOf (fst (updateAchievementProgress ''emergency-fund-10k'' 1450 0 achievements))
     ''emergency-fund-10k'' = Some 14"
  by (simp add: percentageOf_def getAchievementById_def updateAchievementProgress_def
        achievements_def mkAchievement_def progressUpdate_def Let_def fl_numeral
        percent_29_200 round_29_200)

text \<open>
  C5, as stated, fails twice. After an increment of 4 the bill tracker stands at 4; a
  second call with the increment -3 lowers it to 1. And a call with the increment 1450 on
  the emergency fund (target 10000) stores the percentage 14, where
  \<open>round (100 * 1450 / 10000)\<close> is 15: the quotient 0.145 and its product with 100 are each
  rounded to a double, and the product is just below 14.5.
\<close>

theorem progress_decreases:
  "currentOf (fst (runUpdates [(''bill-tracker-10'', 4, 0)] achievements)) ''bill-tracker-10''
     = Some 4
   \<and> currentOf (fst (runUpdates negativeCalls achievements)) ''bill-tracker-10'' = Some 1
   \<and> percentageOf (fst (updateAchievementProgress ''emergency-fund-10k'' 1450 0 achievements))
        ''emergency-fund-10k'' = Some 14
   \<and> js_round (100 * 1450 / 10000) = 15"
proof -
  have "currentOf (fst (runUpdates [(''bill-tracker-10'', 4, 0)] achievements))
          ''bill-tracker-10'' = Some 4"
    by (simp add: bill_after_first Let_def)
       (simp add: currentOf_def getAchievementById_def achievements_def mkAchievement_def)
  moreover have "currentOf (fst (runUpdates negativeCalls achievements)) ''bill-tracker-10''
          = Some 1"
    by (simp add: negativeCalls_def bill_after_first Let_def)
       (simp add: currentOf_def getAchievementById_def updateAchievementProgress_def
          achievements_def mkAchievement_def progressUpdate_def Let_def fl_numeral)
  ultimately show ?thesis
    by (simp add: emergency_fund_1450 round_29_2)
qed

text \<open>
  C5, amended. Take the service's achievements after any sequence of
  \<open>updateAchievementProgress\<close> calls and call it once more on an achievement. Then
  \<open>current\<close> does not decrease if the increment is not negative and does not increase if
  the increment is not positive; whatever the increment, \<open>current\<close> does not exceed
  \<open>target\<close>, \<open>percentage\<close> is \<open>Math.round\<close> of the double product \<open>(current / target) * 100\<close>
  and at most 100; the call unlocks (sets \<open>unlockedAt\<close> and sends the achievement
  notification) exactly when the achievement was not unlocked and the new percentage
  reaches 100; an achievement not unlocked so far stood below 100, an unlocked one keeps
  its \<open>unlockedAt\<close>, and no unlock notification is sent twice in the whole sequence.
\<close>

theorem achievement_progress:
  assumes reach: "runUpdates calls achievements = (achs, earlier)"
    and found: "getAchievementById achs i = Some a"
    and step: "updateAchievementProgress i inc now achs = (achs', sent)"
  shows "\<exists>a'. getAchievementById achs' i = Some a'
     \<and> (0 \<le> inc \<longrightarrow> current (progress a) \<le> current (progress a'))
     \<and> (inc \<le> 0 \<longrightarrow> current (progress a') \<le> current (progress a))
     \<and> current (progress a') \<le> target (progress a')
     \<and> Progress.percentage (progress a')
         = js_round (fl (fl (current (progress a') / target (progress a')) * 100))
     \<and> Progress.percentage (progress a') \<le> 100
     \<and> (sent \<noteq> [] \<longleftrightarrow> unlockedAt a = None \<and> 100 \<le> Progress.percentage (progress a'))
     \<and> (sent \<noteq> [] \<longrightarrow> unlockedAt a' = Some (DateObj now))
     \<and> (unlockedAt a = None \<longrightarrow> Progress.percentage (progress a) < 100)
     \<and> (unlockedAt a \<noteq> None \<longrightarrow> unlockedAt a' = unlockedAt a)
     \<and> (unlockedAt a' = None \<longleftrightarrow> unlockedAt a = None \<and> Progress.percentage (progress a') < 100)
     \<and> distinct (earlier @ sent)"
proof -
  let ?a' = "fst (progressUpdate inc now a)"
  from reachable_inv [of calls] reach have inv: "serviceInv achs earlier"
    by simp
  from found have f: "find (\<lambda>a. Achievement.id a = i) achs = Some a"
    by (simp add: getAchievementById_def)
  then have a_in: "a \<in> set achs"
    by (auto simp add: find_Some_iff)
  with inv have pa: "progressInv a"
    by (simp add: serviceInv_def)
  then have pa': "progressInv ?a'"
    by (rule progressInv_step)
  from step f have achs': "achs' = updateFirst (\<lambda>a. Achievement.id a = i)
                                     (\<lambda>a. fst (progressUpdate inc now a)) achs"
    and sent: "sent = snd (progressUpdate inc now a)"
    by (simp_all add: updateAchievementProgress_def)
  have found': "getAchievementById achs' i = Some ?a'"
    by (simp add: getAchievementById_def achs' find_updateFirst progressUpdate_fields f)
  from serviceInv_step [OF inv, of i inc now] step have "distinct (earlier @ sent)"
    by (simp add: serviceInv_def)
  moreover from pa have "0 \<le> inc \<longrightarrow> current (progress a) \<le> current (progress ?a')"
    by (simp add: progress_monotone(1))
  moreover from pa have "inc \<le> 0 \<longrightarrow> current (progress ?a') \<le> current (progress a)"
    by (simp add: progress_monotone(2))
  moreover from pa' have "current (progress ?a') \<le> target (progress ?a')"
    unfolding progressInv_def by blast
  moreover from pa' have "Progress.percentage (progress ?a')
           = js_round (fl (fl (current (progress ?a') / target (progress ?a')) * 100))"
    unfolding progressInv_def by blast
  moreover from pa' have "unlockedAt ?a' = None \<longrightarrow> Progress.percentage (progress ?a') < 100"
    unfolding progressInv_def by blast
  moreover from pa' have "Progress.percentage (progress ?a') \<le> 100"
    by (rule progressInv_percentage_le)
  moreover from pa have "unlockedAt a = None \<longrightarrow> Progress.percentage (progress a) < 100"
    unfolding progressInv_def by blast
  moreover have "sent \<noteq> [] \<longleftrightarrow> unlockedAt a = None \<and> 100 \<le> Progress.percentage (progress ?a')"
    by (auto simp add: sent progressUpdate_unlock(1))
  moreover have "unlockedAt ?a' =
     (if 100 \<le> Progress.percentage (progress ?a') \<and> unlockedAt a = None
      then Some (DateObj now) else unlockedAt a)"
    by (rule progressUpdate_unlock(2))
  ultimately show ?thesis
    using found' by (intro exI [of _ ?a']) (auto split: if_splits)
qed

theorem achievement_progress_witness:
  "distinct (snd (runUpdates unlockCalls achievements))
   \<and> length (snd (runUpdates unlockCalls achievements)) = 1
   \<and> currentOf (fst (runUpdates unlockCalls achievements)) ''bill-tracker-10'' = Some 10
   \<and> percentageOf (fst (runUpdates unlockCalls achievements)) ''bill-tracker-10'' = Some 100"
proof -
  let ?s1 = "achievements[7 := (achievements ! 7)\<lparr>progress :=
               \<lparr>current = 4, target = 10, Progress.percentage = 40\<rparr>\<rparr>]"
  let ?a = "(achievements ! 7)\<lparr>progress := \<lparr>current = 4, target = 10, Progress.percentage = 40\<rparr>\<rparr>"
  let ?step = "updateAchievementProgress ''bill-tracker-10'' 6 1 ?s1"
  have reach: "runUpdates [(''bill-tracker-10'', 4, 0)] achievements = (?s1, [])"
    by (simp add: bill_after_first Let_def)
  have found: "getAchievementById ?s1 ''bill-tracker-10'' = Some ?a"
    by (simp add: getAchievementById_def achievements_def mkAchievement_def)
  have step: "?step = (fst ?step, snd ?step)"
    by simp
  have sent: "snd ?step = [createAchievementNotification ''Bill Tracker Pro''
                             ''Track 10 recurring bills'']"
    by (simp add: updateAchievementProgress_def achievements_def mkAchievement_def
          progressUpdate_def Let_def fl_numeral)
  have cur: "currentOf (fst ?step) ''bill-tracker-10'' = Some 10"
    by (simp add: currentOf_def getAchievementById_def updateAchievementProgress_def
          achievements_def mkAchievement_def progressUpdate_def Let_def fl_numeral)
  have pct: "percentageOf (fst ?step) ''bill-tracker-10'' = Some 100"
    by (simp add: percentageOf_def getAchievementById_def updateAchievementProgress_def
          achievements_def mkAchievement_def progressUpdate_def Let_def fl_numeral)
  have run: "runUpdates unlockCalls achievements = (fst ?step, snd ?step)"
    by (simp add: unlockCalls_def bill_after_first Let_def)
  from achievement_progress [OF reach found step] have "distinct ([] @ snd ?step)"
    by blast
  then show ?thesis
    by (simp add: run sent cur pct)
qed

subsection \<open>Persisting and reloading\<close>

lemma reload_fields:
  "AppState.salary (reload state) = map_option jsonSalary (AppState.salary state)"
  "AppState.expenses (reload state) = map jsonExpense (AppState.expenses state)"
  "AppState.recurringBills (reload state) = map jsonBill (AppState.recurringBills state)"
  by (simp_all add: reload_def loadPersistedState_def saveToStorage_def partialize_def
        initialState_def)

lemma reload_balance: "calculateBalance (reload state) = calculateBalance state"
proof -
  have e: "map Expense.amount (map jsonExpense xs) = map Expense.amount xs" for xs
    by (simp add: jsonExpense_def)
  have b: "map RecurringBill.amount
             (filter (\<lambda>bill. isActive bill \<and> autoDeduct bill) (map jsonBill ys))
         = map RecurringBill.amount (filter (\<lambda>bill. isActive bill \<and> autoDeduct bill) ys)" for ys
    by (induction ys) (simp_all add: jsonBill_def)
  show ?thesis
    by (cases "AppState.salary state")
       (simp_all add: calculateBalance_def reload_fields foldl_add_sum_list e b jsonSalary_def
          del: map_map)
qed

lemma reload_no_recent:
  "filter (\<lambda>expense. date_ge (Expense.date expense) t0 \<and> Expense.source expense \<noteq> Recurring)
     (map jsonExpense xs) = []"
proof (induction xs)
  case Nil
  then show ?case by simp
next
  case (Cons x xs)
  then show ?case
    by (cases "Expense.date x") (simp_all add: jsonExpense_def)
qed

lemma reload_average: "calculateAverageDailySpend now (reload state) = 0"
  by (simp add: calculateAverageDailySpend_def reload_fields reload_no_recent Let_def)

text \<open>
  C6 at the three-expense scenario. Before persisting the average daily spend is 150 and
  70 days remain; after persisting and reloading every expense date is an ISO string, no
  expense passes the date test, the average is 0 and the days remaining are 999. The
  balance is the same.
\<close>

theorem reload_changes_metrics:
  "calculateBalance (scenarioState scenarioNow) = 10500
   \<and> calculateBalance (reload (scenarioState scenarioNow)) = 10500
   \<and> calculateAverageDailySpend scenarioNow (scenarioState scenarioNow) = 150
   \<and> calculateAverageDailySpend scenarioNow (reload (scenarioState scenarioNow)) = 0
   \<and> calculateDaysRemaining scenarioNow (scenarioState scenarioNow) = 70
   \<and> calculateDaysRemaining scenarioNow (reload (scenarioState scenarioNow)) = 999"
  by (simp add: reload_balance reload_average scenario_balance scenario_average scenario_days
        calculateDaysRemaining_def)

end
